theory Spec2Isabelle
  imports Complex_Main "HOL-Library.AList" "HOL-Library.Sublist"
begin

section \<open>Session pool and network interception of browser\_rpc (cdp\_client.py)\<close>

text \<open>
  The development embeds the three classes of \<^verbatim>\<open>cdp_client.py\<close>:
  \<^verbatim>\<open>NetworkInterceptor\<close>, \<^verbatim>\<open>BrowserSession\<close> and \<^verbatim>\<open>BrowserPool\<close>.
  Mutation is explicit state passing. Every operation returns what the caller sees
  (a value, an exception, or a call that never returns), the state it leaves behind,
  and the list of external calls and log records it made, in order.
  The browser engine (Playwright), the clock, \<^verbatim>\<open>uuid.uuid4\<close> and \<^verbatim>\<open>re.search\<close>
  are outside the repository: their answers are parameters of the operations.
\<close>

subsection \<open>Values, errors and effects\<close>

text \<open>Python values that are only passed through (script results, cookies).\<close>

datatype py_value =
    PyNone
  | PyBool bool
  | PyInt int
  | PyStr string
  | PyList "py_value list"
  | PyDict "(string \<times> py_value) list"

type_synonym bytes = "nat list"

text \<open>A \<^verbatim>\<open>Dict[str, str]\<close> of HTTP headers; the order of keys plays no role.\<close>

type_synonym headers = "string \<rightharpoonup> string"

text \<open>
  The exceptions of the module.
  \<^item> \<open>UninitializedSession\<close>: \<^verbatim>\<open>RuntimeError\<close> with the message "browser session not
    initialised", raised by the guards of the session operations;
  \<^item> \<open>PoolExhausted m\<close>: \<^verbatim>\<open>RuntimeError\<close> with the message "session limit reached: m";
  \<^item> \<open>ElementNotFound sel\<close>: \<^verbatim>\<open>ValueError\<close> raised by \<^verbatim>\<open>screenshot\<close>;
  \<^item> \<open>CapabilityFailure msg\<close>: any exception raised by the browser engine;
  \<^item> \<open>PatternError msg\<close>: \<^verbatim>\<open>re.error\<close>, raised by \<^verbatim>\<open>re.search\<close> on a pattern that
    does not compile;
  \<^item> \<open>DecodeError msg\<close>: \<^verbatim>\<open>UnicodeDecodeError\<close>, raised by Playwright's
    \<^verbatim>\<open>request.post_data\<close> on a body that is not valid UTF-8.
\<close>

datatype error =
    UninitializedSession
  | PoolExhausted int
  | ElementNotFound string
  | CapabilityFailure string
  | PatternError string
  | DecodeError string

text \<open>
  What the caller of an operation observes. \<open>Blocks\<close> is an \<^verbatim>\<open>await\<close> that never
  completes.
\<close>

datatype 'a outcome = Returns 'a | Raises error | Blocks

text \<open>The four resources a session owns, in the order \<^verbatim>\<open>close\<close> releases them.\<close>

datatype resource = Page | Context | Browser | Playwright

text \<open>The awaited engine calls of \<^verbatim>\<open>initialize\<close> that can make it fail, in order.\<close>

datatype init_step =
    StartPlaywright
  | LaunchBrowser
  | NewContext
  | AddInitScript
  | NewPage
  | ApplyStealth
  | EvaluateDebug

text \<open>A call made on the browser engine.\<close>

datatype cap_call =
    Init init_step
  | InjectThirdParty
  | Goto string int
  | Evaluate string
  | Content
  | WaitForSelector string int
  | Click string
  | Fill string string
  | QuerySelector string
  | ElementScreenshot
  | PageScreenshot bool
  | SetExtraHttpHeaders headers
  | AddCookies "py_value list"
  | Cookies "string option"
  | Release resource

text \<open>An observable effect: an engine call or a log record.\<close>

datatype event = Call cap_call | LogInfo | LogWarning "error option" | LogError error

subsection \<open>NetworkInterceptor\<close>

text \<open>The dictionary stored under the key \<^verbatim>\<open>'response'\<close> of a request record.\<close>

record response_data =
  status_code :: int
  r_headers :: headers
  body :: "string option"

text \<open>The dictionary \<^verbatim>\<open>request_data\<close> appended by \<^verbatim>\<open>on_request\<close>.\<close>

record request_data =
  request_id :: string
  url :: string
  "method" :: string
  headers :: headers
  post_data :: "string option"
  timestamp :: real
  response :: "response_data option"

text \<open>
  The attributes \<^verbatim>\<open>on_request\<close> reads from Playwright's request object.
  \<open>ev_post_data\<close> is the outcome of reading the property \<^verbatim>\<open>request.post_data\<close>, which
  decodes the body as UTF-8: \<open>Inl e\<close> when the read raises \<open>e\<close>, \<open>Inr None\<close> when the
  request has no body, \<open>Inr (Some text)\<close> otherwise.
\<close>

record request_ev =
  ev_url :: string
  ev_method :: string
  ev_headers :: headers
  ev_post_data :: "error + string option"

text \<open>
  The attributes \<^verbatim>\<open>on_response\<close> reads from Playwright's response object.
  \<open>rs_body\<close> is the outcome of \<^verbatim>\<open>(await response.body()).decode('utf-8', errors='ignore')\<close>:
  \<open>Inl e\<close> when fetching the body raises \<open>e\<close>, \<open>Inr text\<close> otherwise.
\<close>

record response_ev =
  rs_url :: string
  rs_status :: int
  rs_headers :: headers
  rs_body :: "error + string"

record network_interceptor =
  requests :: "request_data list"
  url_pattern :: "string option"

text \<open>\<^verbatim>\<open>re.search(pattern, url)\<close>: \<open>Inl e\<close> when it raises, else whether it found a match.\<close>

type_synonym re_search = "string \<Rightarrow> string \<Rightarrow> error + bool"

definition new_interceptor :: network_interceptor where
  "new_interceptor = \<lparr>requests = [], url_pattern = None\<rparr>"

definition set_url_pattern :: "network_interceptor \<Rightarrow> string \<Rightarrow> network_interceptor" where
  "set_url_pattern itc pattern = itc\<lparr>url_pattern := Some pattern\<rparr>"

definition clear :: "network_interceptor \<Rightarrow> network_interceptor" where
  "clear itc = itc\<lparr>requests := []\<rparr>"

text \<open>
  The test \<^verbatim>\<open>self.url_pattern and not re.search(self.url_pattern, url)\<close> that opens both
  callbacks: \<open>Inr True\<close> when the event is to be dropped. The pattern is falsy when it is
  \<^verbatim>\<open>None\<close> or the empty string, and then \<^verbatim>\<open>re.search\<close> is not called.
\<close>

definition filtered_out :: "re_search \<Rightarrow> network_interceptor \<Rightarrow> string \<Rightarrow> error + bool" where
  "filtered_out search itc u =
     (case url_pattern itc of
        None \<Rightarrow> Inr False
      | Some p \<Rightarrow>
          if p = [] then Inr False
          else (case search p u of Inl e \<Rightarrow> Inl e | Inr found \<Rightarrow> Inr (\<not> found)))"

text \<open>
  The conditional expression \<^verbatim>\<open>request.post_data if request.method == 'POST' else None\<close>:
  the property is read, and can raise, for a \<^verbatim>\<open>POST\<close> only.
\<close>

definition post_data_read :: "request_ev \<Rightarrow> error + string option" where
  "post_data_read ev = (if ev_method ev = ''POST'' then ev_post_data ev else Inr None)"

text \<open>
  The body of the \<^verbatim>\<open>try\<close> block of \<^verbatim>\<open>on_request\<close>. An exception raised while the
  dictionary is built leaves the list as it was.
\<close>

definition on_request_try ::
  "re_search \<Rightarrow> network_interceptor \<Rightarrow> request_ev \<Rightarrow> string \<Rightarrow> real \<Rightarrow> error + network_interceptor" where
  "on_request_try search itc ev rid now =
     (case filtered_out search itc (ev_url ev) of
        Inl e \<Rightarrow> Inl e
      | Inr True \<Rightarrow> Inr itc
      | Inr False \<Rightarrow>
          (case post_data_read ev of
             Inl e \<Rightarrow> Inl e
           | Inr d \<Rightarrow>
               Inr (itc\<lparr>requests := requests itc @
                 [\<lparr>request_id = rid,
                   url = ev_url ev,
                   method = ev_method ev,
                   headers = ev_headers ev,
                   post_data = d,
                   timestamp = now,
                   response = None\<rparr>]\<rparr>)))"

text \<open>
  \<^verbatim>\<open>on_request\<close>: \<open>rid\<close> is the fresh \<^verbatim>\<open>uuid4\<close>, \<open>now\<close> the clock. The handler
  \<^verbatim>\<open>except Exception\<close> logs and returns.
\<close>

definition on_request ::
  "re_search \<Rightarrow> network_interceptor \<Rightarrow> request_ev \<Rightarrow> string \<Rightarrow> real
     \<Rightarrow> unit outcome \<times> network_interceptor \<times> event list" where
  "on_request search itc ev rid now =
     (case on_request_try search itc ev rid now of
        Inl e \<Rightarrow> (Returns (), itc, [LogError e])
      | Inr itc' \<Rightarrow> (Returns (), itc', []))"

text \<open>
  The dictionary stored for a response: the inner \<^verbatim>\<open>try\<close> stores the decoded body, its
  handler stores \<^verbatim>\<open>None\<close> for the body and logs a warning.
\<close>

definition response_of :: "response_ev \<Rightarrow> response_data" where
  "response_of rs =
     \<lparr>status_code = rs_status rs,
      r_headers = rs_headers rs,
      body = (case rs_body rs of Inl e \<Rightarrow> None | Inr text \<Rightarrow> Some text)\<rparr>"

definition body_warning :: "response_ev \<Rightarrow> event list" where
  "body_warning rs = (case rs_body rs of Inl e \<Rightarrow> [LogWarning (Some e)] | Inr text \<Rightarrow> [])"

text \<open>
  \<^verbatim>\<open>on_response\<close> is a coroutine with one suspension point, \<^verbatim>\<open>await response.body()\<close>,
  between the test \<^verbatim>\<open>req['response'] is None\<close> and the assignment to
  \<^verbatim>\<open>req['response']\<close>. Playwright starts it for every response event and nobody awaits
  it, so other callbacks can run while it is suspended. It is modelled in its two
  synchronous parts.
\<close>

text \<open>
  The loop \<^verbatim>\<open>for req in self.requests\<close> up to the suspension point: the position of the
  first record with the response's URL and no response yet.
\<close>

fun first_pending :: "string \<Rightarrow> request_data list \<Rightarrow> nat option" where
  "first_pending u [] = None"
| "first_pending u (req # reqs) =
     (if url req = u \<and> response req = None then Some 0
      else map_option Suc (first_pending u reqs))"

text \<open>
  What is left of a handler after its first part: it has returned, or it is suspended
  holding the dictionary bound to \<^verbatim>\<open>req\<close>. The dictionary is named by its position in
  \<^verbatim>\<open>self.requests\<close> and its \<^verbatim>\<open>request_id\<close>: a position keeps its dictionary while the
  list is appended to and records are filled, and after \<^verbatim>\<open>clear()\<close> a record at that
  position is a new dictionary with a fresh identifier.
\<close>

datatype response_task = Returned | Suspended nat string

text \<open>
  The first part: the filter test and the scan. It changes nothing; the handler
  \<^verbatim>\<open>except Exception\<close> of the outer \<^verbatim>\<open>try\<close> logs and returns.
\<close>

definition on_response_begin ::
  "re_search \<Rightarrow> network_interceptor \<Rightarrow> response_ev \<Rightarrow> response_task \<times> event list" where
  "on_response_begin search itc rs =
     (case filtered_out search itc (rs_url rs) of
        Inl e \<Rightarrow> (Returned, [LogError e])
      | Inr True \<Rightarrow> (Returned, [])
      | Inr False \<Rightarrow>
          (case first_pending (rs_url rs) (requests itc) of
             None \<Rightarrow> (Returned, [])
           | Some i \<Rightarrow> (Suspended i (request_id (requests itc ! i)), [])))"

text \<open>
  The second part, on the interceptor as it is when the body has arrived: the held
  dictionary gets its response (a write that is lost when the dictionary is no longer
  in the list), and the loop stops (\<^verbatim>\<open>break\<close>).
\<close>

definition on_response_resume ::
  "network_interceptor \<Rightarrow> response_ev \<Rightarrow> response_task \<Rightarrow> network_interceptor \<times> event list" where
  "on_response_resume itc rs task =
     (case task of
        Returned \<Rightarrow> (itc, [])
      | Suspended i rid \<Rightarrow>
          (if i < length (requests itc) \<and> request_id (requests itc ! i) = rid
           then itc\<lparr>requests :=
                  (requests itc)[i := (requests itc ! i)\<lparr>response := Some (response_of rs)\<rparr>]\<rparr>
           else itc,
           body_warning rs))"

text \<open>
  A handler that no other callback interleaves with: its second part runs on the
  interceptor its first part saw.
\<close>

definition on_response ::
  "re_search \<Rightarrow> network_interceptor \<Rightarrow> response_ev
     \<Rightarrow> unit outcome \<times> network_interceptor \<times> event list" where
  "on_response search itc rs =
     (case on_response_begin search itc rs of
        (task, evs) \<Rightarrow>
          (case on_response_resume itc rs task of
             (itc', evs') \<Rightarrow> (Returns (), itc', evs @ evs')))"

text \<open>
  Truth value of \<^verbatim>\<open>req.get('response')\<close>: \<^verbatim>\<open>None\<close> is falsy; a stored response is a
  dictionary with three keys, hence truthy.
\<close>

definition truthy_response :: "response_data option \<Rightarrow> bool" where
  "truthy_response r = (case r of None \<Rightarrow> False | Some d \<Rightarrow> True)"

definition get_requests :: "network_interceptor \<Rightarrow> request_data list" where
  "get_requests itc = filter (\<lambda>req. truthy_response (response req)) (requests itc)"

text \<open>The three components of what an operation returns.\<close>

definition after :: "'r \<times> 's \<times> 'e \<Rightarrow> 's" where
  "after res = fst (snd res)"

definition effects :: "'r \<times> 's \<times> 'e \<Rightarrow> 'e" where
  "effects res = snd (snd res)"

definition result :: "'r \<times> 's \<times> 'e \<Rightarrow> 'r" where
  "result res = fst res"


subsection \<open>BrowserSession\<close>

text \<open>A live Playwright object; every such object is truthy.\<close>

datatype handle = Handle

record browser_session =
  session_id :: string
  browser :: "handle option"
  "context" :: "handle option"
  page :: "handle option"
  playwright :: "handle option"
  network_interceptor :: network_interceptor
  custom_headers :: headers
  created_at :: real
  last_activity :: real

text \<open>
  The browser engine as the session sees it: for every awaited call, the exception it
  raises (\<open>Some e\<close>, \<open>Inl e\<close>) or its answer.
  \<^item> \<open>init_outcome\<close>: the calls of \<^verbatim>\<open>initialize\<close>;
  \<^item> \<open>third_party_stealth\<close>: \<open>None\<close> when the script file does not exist, else the outcome
    of the \<^verbatim>\<open>try\<close> block that reads and injects it;
  \<^item> \<open>goto\<close>: \<^verbatim>\<open>page.goto\<close>, answering \<^verbatim>\<open>page.url\<close> as read after it;
  \<^item> \<open>query_selector\<close>: \<open>Inr None\<close> when no element matches, else the outcome of the
    element's \<^verbatim>\<open>screenshot()\<close>;
  \<^item> \<open>release\<close>: \<^verbatim>\<open>page.close()\<close>, \<^verbatim>\<open>context.close()\<close>, \<^verbatim>\<open>browser.close()\<close> and
    \<^verbatim>\<open>playwright.stop()\<close>.
\<close>

record capability =
  init_outcome :: "init_step \<Rightarrow> error option"
  third_party_stealth :: "error option option"
  goto :: "string \<Rightarrow> int \<Rightarrow> error + string"
  evaluate :: "string \<Rightarrow> error + py_value"
  content :: "error + string"
  wait_for :: "string \<Rightarrow> int \<Rightarrow> error option"
  click_on :: "string \<Rightarrow> error option"
  fill :: "string \<Rightarrow> string \<Rightarrow> error option"
  query_selector :: "string \<Rightarrow> error + (error + bytes) option"
  page_screenshot :: "bool \<Rightarrow> error + bytes"
  set_extra_http_headers :: "headers \<Rightarrow> error option"
  add_cookies :: "py_value list \<Rightarrow> error option"
  cookies :: "string option \<Rightarrow> error + py_value list"
  release :: "resource \<Rightarrow> error option"

text \<open>\<^verbatim>\<open>BrowserSession.__init__\<close>; \<open>tc\<close> and \<open>ta\<close> are its two readings of the clock.\<close>

definition new_session :: "string \<Rightarrow> real \<Rightarrow> real \<Rightarrow> browser_session" where
  "new_session sid tc ta =
     \<lparr>session_id = sid, browser = None, context = None, page = None, playwright = None,
      network_interceptor = new_interceptor, custom_headers = Map.empty,
      created_at = tc, last_activity = ta\<rparr>"

text \<open>
  One \<^verbatim>\<open>if self.x: await self.x.close()\<close> of \<^verbatim>\<open>close\<close>: nothing happens when the
  handle is \<^verbatim>\<open>None\<close>; otherwise the release call is made and may raise.
\<close>

definition release_step :: "capability \<Rightarrow> resource \<Rightarrow> handle option \<Rightarrow> error option \<times> event list" where
  "release_step cap r h =
     (case h of None \<Rightarrow> (None, []) | Some x \<Rightarrow> (release cap r, [Call (Release r)]))"

text \<open>
  \<^verbatim>\<open>close\<close>: one \<^verbatim>\<open>try\<close> block around the four steps. A step that raises leaves its
  handle set and jumps to the handler, which logs; \<^verbatim>\<open>close\<close> never raises.
\<close>

definition close :: "capability \<Rightarrow> browser_session \<Rightarrow> unit outcome \<times> browser_session \<times> event list" where
  "close cap s0 =
     (case release_step cap Page (page s0) of
        (Some e, t1) \<Rightarrow> (Returns (), s0, t1 @ [LogError e])
      | (None, t1) \<Rightarrow>
     (let s1 = s0\<lparr>page := None\<rparr> in
      case release_step cap Context (context s1) of
        (Some e, t2) \<Rightarrow> (Returns (), s1, t1 @ t2 @ [LogError e])
      | (None, t2) \<Rightarrow>
     (let s2 = s1\<lparr>context := None\<rparr> in
      case release_step cap Browser (browser s2) of
        (Some e, t3) \<Rightarrow> (Returns (), s2, t1 @ t2 @ t3 @ [LogError e])
      | (None, t3) \<Rightarrow>
     (let s3 = s2\<lparr>browser := None\<rparr> in
      case release_step cap Playwright (playwright s3) of
        (Some e, t4) \<Rightarrow> (Returns (), s3, t1 @ t2 @ t3 @ t4 @ [LogError e])
      | (None, t4) \<Rightarrow>
          (Returns (), s3\<lparr>playwright := None\<rparr>, t1 @ t2 @ t3 @ t4 @ [LogInfo])))))"

text \<open>The attribute an initialisation call assigns when it succeeds.\<close>

fun set_handle :: "init_step \<Rightarrow> browser_session \<Rightarrow> browser_session" where
  "set_handle StartPlaywright s = s\<lparr>playwright := Some Handle\<rparr>"
| "set_handle LaunchBrowser s = s\<lparr>browser := Some Handle\<rparr>"
| "set_handle NewContext s = s\<lparr>context := Some Handle\<rparr>"
| "set_handle NewPage s = s\<lparr>page := Some Handle\<rparr>"
| "set_handle st s = s"

text \<open>Consecutive awaited calls of \<^verbatim>\<open>initialize\<close>: the first that raises ends them.\<close>

fun init_steps ::
  "capability \<Rightarrow> init_step list \<Rightarrow> browser_session \<Rightarrow> error option \<times> browser_session \<times> event list" where
  "init_steps cap [] s = (None, s, [])"
| "init_steps cap (st # sts) s =
     (case init_outcome cap st of
        Some e \<Rightarrow> (Some e, s, [Call (Init st)])
      | None \<Rightarrow>
          (case init_steps cap sts (set_handle st s) of
             (r, s', t) \<Rightarrow> (r, s', Call (Init st) # t)))"

text \<open>
  The injection of the third-party stealth script: its own \<^verbatim>\<open>try\<close> block turns a
  failure into a warning, and a missing file is a warning too.
\<close>

definition inject_third_party :: "capability \<Rightarrow> event list" where
  "inject_third_party cap =
     (case third_party_stealth cap of
        None \<Rightarrow> [LogWarning None]
      | Some None \<Rightarrow> [LogInfo, Call InjectThirdParty, LogInfo]
      | Some (Some e) \<Rightarrow> [LogInfo, Call InjectThirdParty, LogWarning (Some e)])"

text \<open>
  The \<^verbatim>\<open>try\<close> block of \<^verbatim>\<open>initialize\<close>. The launch and context options (headless,
  user agent, proxy, viewport) only parametrise the engine calls and are left out.
\<close>

definition initialize_try ::
  "capability \<Rightarrow> browser_session \<Rightarrow> real \<Rightarrow> error option \<times> browser_session \<times> event list" where
  "initialize_try cap s now =
     (case init_steps cap [StartPlaywright, LaunchBrowser, NewContext, AddInitScript] s of
        (Some e, s1, t1) \<Rightarrow> (Some e, s1, t1)
      | (None, s1, t1) \<Rightarrow>
          (case init_steps cap [NewPage, ApplyStealth, EvaluateDebug] s1 of
             (Some e, s2, t2) \<Rightarrow> (Some e, s2, t1 @ inject_third_party cap @ t2)
           | (None, s2, t2) \<Rightarrow>
               (None, s2\<lparr>last_activity := now\<rparr>,
                t1 @ inject_third_party cap @ t2 @ [LogInfo, LogInfo])))"

text \<open>\<^verbatim>\<open>initialize\<close>: on any failure it logs, closes what was allocated and re-raises.\<close>

definition initialize ::
  "capability \<Rightarrow> browser_session \<Rightarrow> real \<Rightarrow> bool outcome \<times> browser_session \<times> event list" where
  "initialize cap s now =
     (case initialize_try cap s now of
        (None, s', t) \<Rightarrow> (Returns True, s', t)
      | (Some e, s', t) \<Rightarrow>
          (case close cap s' of (r, s'', t') \<Rightarrow> (Raises e, s'', t @ [LogError e] @ t')))"

definition navigate ::
  "capability \<Rightarrow> browser_session \<Rightarrow> string \<Rightarrow> int \<Rightarrow> real
     \<Rightarrow> string outcome \<times> browser_session \<times> event list" where
  "navigate cap s u timeout now =
     (case page s of
        None \<Rightarrow> (Raises UninitializedSession, s, [])
      | Some h \<Rightarrow>
          (case goto cap u (timeout * 1000) of
             Inl e \<Rightarrow> (Raises e, s, [Call (Goto u (timeout * 1000)), LogError e])
           | Inr final_url \<Rightarrow>
               (Returns final_url, s\<lparr>last_activity := now\<rparr>, [Call (Goto u (timeout * 1000))])))"

definition execute_script ::
  "capability \<Rightarrow> browser_session \<Rightarrow> string \<Rightarrow> real
     \<Rightarrow> py_value outcome \<times> browser_session \<times> event list" where
  "execute_script cap s script now =
     (case page s of
        None \<Rightarrow> (Raises UninitializedSession, s, [])
      | Some h \<Rightarrow>
          (case evaluate cap script of
             Inl e \<Rightarrow> (Raises e, s, [Call (Evaluate script), LogError e])
           | Inr v \<Rightarrow> (Returns v, s\<lparr>last_activity := now\<rparr>, [Call (Evaluate script)])))"

definition get_content ::
  "capability \<Rightarrow> browser_session \<Rightarrow> real \<Rightarrow> string outcome \<times> browser_session \<times> event list" where
  "get_content cap s now =
     (case page s of
        None \<Rightarrow> (Raises UninitializedSession, s, [])
      | Some h \<Rightarrow>
          (case content cap of
             Inl e \<Rightarrow> (Raises e, s, [Call Content, LogError e])
           | Inr html \<Rightarrow> (Returns html, s\<lparr>last_activity := now\<rparr>, [Call Content])))"

definition wait_for_selector ::
  "capability \<Rightarrow> browser_session \<Rightarrow> string \<Rightarrow> int \<Rightarrow> real
     \<Rightarrow> bool outcome \<times> browser_session \<times> event list" where
  "wait_for_selector cap s selector timeout now =
     (case page s of
        None \<Rightarrow> (Raises UninitializedSession, s, [])
      | Some h \<Rightarrow>
          (case wait_for cap selector (timeout * 1000) of
             Some e \<Rightarrow> (Raises e, s, [Call (WaitForSelector selector (timeout * 1000)), LogError e])
           | None \<Rightarrow>
               (Returns True, s\<lparr>last_activity := now\<rparr>,
                [Call (WaitForSelector selector (timeout * 1000))])))"

definition click ::
  "capability \<Rightarrow> browser_session \<Rightarrow> string \<Rightarrow> real
     \<Rightarrow> bool outcome \<times> browser_session \<times> event list" where
  "click cap s selector now =
     (case page s of
        None \<Rightarrow> (Raises UninitializedSession, s, [])
      | Some h \<Rightarrow>
          (case click_on cap selector of
             Some e \<Rightarrow> (Raises e, s, [Call (Click selector), LogError e])
           | None \<Rightarrow> (Returns True, s\<lparr>last_activity := now\<rparr>, [Call (Click selector)])))"

definition type_text ::
  "capability \<Rightarrow> browser_session \<Rightarrow> string \<Rightarrow> string \<Rightarrow> real
     \<Rightarrow> bool outcome \<times> browser_session \<times> event list" where
  "type_text cap s selector text now =
     (case page s of
        None \<Rightarrow> (Raises UninitializedSession, s, [])
      | Some h \<Rightarrow>
          (case fill cap selector text of
             Some e \<Rightarrow> (Raises e, s, [Call (Fill selector text), LogError e])
           | None \<Rightarrow> (Returns True, s\<lparr>last_activity := now\<rparr>, [Call (Fill selector text)])))"

text \<open>Truth value of an \<^verbatim>\<open>Optional[str]\<close>: \<^verbatim>\<open>None\<close> and the empty string are falsy.\<close>

definition truthy_str :: "string option \<Rightarrow> bool" where
  "truthy_str x = (case x of None \<Rightarrow> False | Some v \<Rightarrow> v \<noteq> [])"

definition screenshot ::
  "capability \<Rightarrow> browser_session \<Rightarrow> string option \<Rightarrow> bool \<Rightarrow> real
     \<Rightarrow> bytes outcome \<times> browser_session \<times> event list" where
  "screenshot cap s selector full_page now =
     (case page s of
        None \<Rightarrow> (Raises UninitializedSession, s, [])
      | Some h \<Rightarrow>
          if truthy_str selector then
            (case query_selector cap (the selector) of
               Inl e \<Rightarrow> (Raises e, s, [Call (QuerySelector (the selector)), LogError e])
             | Inr None \<Rightarrow>
                 (Raises (ElementNotFound (the selector)), s,
                  [Call (QuerySelector (the selector)), LogError (ElementNotFound (the selector))])
             | Inr (Some (Inl e)) \<Rightarrow>
                 (Raises e, s,
                  [Call (QuerySelector (the selector)), Call ElementScreenshot, LogError e])
             | Inr (Some (Inr png)) \<Rightarrow>
                 (Returns png, s\<lparr>last_activity := now\<rparr>,
                  [Call (QuerySelector (the selector)), Call ElementScreenshot]))
          else
            (case page_screenshot cap full_page of
               Inl e \<Rightarrow> (Raises e, s, [Call (PageScreenshot full_page), LogError e])
             | Inr png \<Rightarrow>
                 (Returns png, s\<lparr>last_activity := now\<rparr>, [Call (PageScreenshot full_page)])))"

text \<open>
  \<^verbatim>\<open>set_extra_headers\<close>: \<^verbatim>\<open>self.custom_headers.update(headers)\<close> runs before the engine
  call, so the merged mapping stays when the call raises.
\<close>

definition set_extra_headers ::
  "capability \<Rightarrow> browser_session \<Rightarrow> headers \<Rightarrow> real
     \<Rightarrow> unit outcome \<times> browser_session \<times> event list" where
  "set_extra_headers cap s hs now =
     (case context s of
        None \<Rightarrow> (Raises UninitializedSession, s, [])
      | Some h \<Rightarrow>
          (let s1 = s\<lparr>custom_headers := custom_headers s ++ hs\<rparr> in
           case set_extra_http_headers cap (custom_headers s1) of
             Some e \<Rightarrow> (Raises e, s1, [Call (SetExtraHttpHeaders (custom_headers s1)), LogError e])
           | None \<Rightarrow>
               (Returns (), s1\<lparr>last_activity := now\<rparr>,
                [Call (SetExtraHttpHeaders (custom_headers s1))])))"

definition set_cookies ::
  "capability \<Rightarrow> browser_session \<Rightarrow> py_value list \<Rightarrow> real
     \<Rightarrow> unit outcome \<times> browser_session \<times> event list" where
  "set_cookies cap s cs now =
     (case context s of
        None \<Rightarrow> (Raises UninitializedSession, s, [])
      | Some h \<Rightarrow>
          (case add_cookies cap cs of
             Some e \<Rightarrow> (Raises e, s, [Call (AddCookies cs), LogError e])
           | None \<Rightarrow> (Returns (), s\<lparr>last_activity := now\<rparr>, [Call (AddCookies cs)])))"

definition get_cookies ::
  "capability \<Rightarrow> browser_session \<Rightarrow> string option \<Rightarrow> real
     \<Rightarrow> py_value list outcome \<times> browser_session \<times> event list" where
  "get_cookies cap s u now =
     (case context s of
        None \<Rightarrow> (Raises UninitializedSession, s, [])
      | Some h \<Rightarrow>
          (let arg = (if truthy_str u then u else None) in
           case cookies cap arg of
             Inl e \<Rightarrow> (Raises e, s, [Call (Cookies arg), LogError e])
           | Inr cs \<Rightarrow> (Returns cs, s\<lparr>last_activity := now\<rparr>, [Call (Cookies arg)])))"

definition get_network_requests ::
  "browser_session \<Rightarrow> string option \<Rightarrow> request_data list \<times> browser_session" where
  "get_network_requests s pat =
     (let s' = (if truthy_str pat
                then s\<lparr>network_interceptor := set_url_pattern (network_interceptor s) (the pat)\<rparr>
                else s)
      in (get_requests (network_interceptor s'), s'))"

definition clear_network_requests :: "browser_session \<Rightarrow> browser_session" where
  "clear_network_requests s = s\<lparr>network_interceptor := clear (network_interceptor s)\<rparr>"

text \<open>
  The ten operations that the session guards with \<^verbatim>\<open>if not self.page\<close> or
  \<^verbatim>\<open>if not self.context\<close>, with their arguments, and the common shape of what the
  caller sees of each: the exception raised, if any.
\<close>

datatype session_op =
    Navigate string int
  | ExecuteScript string
  | GetContent
  | WaitFor string int
  | ClickOn string
  | TypeText string string
  | Screenshot "string option" bool
  | SetExtraHeaders headers
  | SetCookies "py_value list"
  | GetCookies "string option"

definition raised :: "'a outcome \<Rightarrow> error option" where
  "raised r = (case r of Raises e \<Rightarrow> Some e | Returns v \<Rightarrow> None | Blocks \<Rightarrow> None)"

definition seen :: "'a outcome \<times> browser_session \<times> event list \<Rightarrow> error option \<times> browser_session \<times> event list" where
  "seen res = (raised (result res), after res, effects res)"

fun run_op ::
  "capability \<Rightarrow> browser_session \<Rightarrow> real \<Rightarrow> session_op \<Rightarrow> error option \<times> browser_session \<times> event list" where
  "run_op cap s now (Navigate u timeout) = seen (navigate cap s u timeout now)"
| "run_op cap s now (ExecuteScript script) = seen (execute_script cap s script now)"
| "run_op cap s now GetContent = seen (get_content cap s now)"
| "run_op cap s now (WaitFor selector timeout) = seen (wait_for_selector cap s selector timeout now)"
| "run_op cap s now (ClickOn selector) = seen (click cap s selector now)"
| "run_op cap s now (TypeText selector text) = seen (type_text cap s selector text now)"
| "run_op cap s now (Screenshot selector full_page) = seen (screenshot cap s selector full_page now)"
| "run_op cap s now (SetExtraHeaders hs) = seen (set_extra_headers cap s hs now)"
| "run_op cap s now (SetCookies cs) = seen (set_cookies cap s cs now)"
| "run_op cap s now (GetCookies u) = seen (get_cookies cap s u now)"


subsection \<open>BrowserPool\<close>

text \<open>
  \<open>sessions\<close> is the dictionary \<^verbatim>\<open>self.sessions\<close> in insertion order
  (\<open>AList.update\<close> replaces in place or appends, as item assignment does; \<open>AList.delete\<close>
  removes the key). \<open>locked\<close> is the state of \<^verbatim>\<open>self._lock\<close>, an \<^verbatim>\<open>asyncio.Lock\<close>.
\<close>

record browser_pool =
  sessions :: "(string \<times> browser_session) list"
  max_sessions :: int
  session_timeout :: int
  locked :: bool

text \<open>\<^verbatim>\<open>BrowserPool.__init__\<close>.\<close>

definition new_pool :: "int \<Rightarrow> int \<Rightarrow> browser_pool" where
  "new_pool m timeout = \<lparr>sessions = [], max_sessions = m, session_timeout = timeout, locked = False\<rparr>"

text \<open>
  \<^verbatim>\<open>async with self._lock:\<close>. An \<^verbatim>\<open>asyncio.Lock\<close> is not reentrant: acquiring it
  while it is held waits for a release, whoever holds it. The lock is released when
  the block returns or raises; a block that never completes keeps it.
\<close>

definition with_lock ::
  "browser_pool \<Rightarrow> (browser_pool \<Rightarrow> 'a outcome \<times> browser_pool \<times> event list)
     \<Rightarrow> 'a outcome \<times> browser_pool \<times> event list" where
  "with_lock p block =
     (if locked p then (Blocks, p, [])
      else (case block (p\<lparr>locked := True\<rparr>) of
              (Blocks, p', t) \<Rightarrow> (Blocks, p', t)
            | (r, p', t) \<Rightarrow> (r, p'\<lparr>locked := False\<rparr>, t)))"

definition get_session :: "browser_pool \<Rightarrow> string \<Rightarrow> browser_session option" where
  "get_session p sid = map_of (sessions p) sid"

text \<open>\<^verbatim>\<open>close_session\<close>; \<open>cap\<close> is the engine behind the session being closed.\<close>

definition close_session ::
  "capability \<Rightarrow> browser_pool \<Rightarrow> string \<Rightarrow> bool outcome \<times> browser_pool \<times> event list" where
  "close_session cap p sid =
     with_lock p (\<lambda>p1.
       case map_of (sessions p1) sid of
         None \<Rightarrow> (Returns False, p1, [])
       | Some s \<Rightarrow>
           (case close cap s of
              (r, s', t) \<Rightarrow>
                (Returns True, p1\<lparr>sessions := AList.delete sid (sessions p1)\<rparr>, t @ [LogInfo])))"

text \<open>The first loop of \<^verbatim>\<open>_cleanup_expired_sessions\<close>.\<close>

definition expired_sessions :: "browser_pool \<Rightarrow> real \<Rightarrow> string list" where
  "expired_sessions p current_time =
     map fst (filter (\<lambda>(sid, s). current_time - last_activity s > real_of_int (session_timeout p))
                     (sessions p))"

text \<open>The second loop: \<^verbatim>\<open>await self.close_session(session_id)\<close> for each expired id.\<close>

fun close_each ::
  "capability \<Rightarrow> browser_pool \<Rightarrow> string list \<Rightarrow> unit outcome \<times> browser_pool \<times> event list" where
  "close_each cap p [] = (Returns (), p, [])"
| "close_each cap p (sid # sids) =
     (case close_session cap p sid of
        (Blocks, p', t) \<Rightarrow> (Blocks, p', t)
      | (Raises e, p', t) \<Rightarrow> (Raises e, p', t)
      | (Returns b, p', t) \<Rightarrow>
          (case close_each cap p' sids of (r, p'', t') \<Rightarrow> (r, p'', t @ LogInfo # t')))"

definition cleanup_expired_sessions ::
  "capability \<Rightarrow> browser_pool \<Rightarrow> real \<Rightarrow> unit outcome \<times> browser_pool \<times> event list" where
  "cleanup_expired_sessions cap p current_time = close_each cap p (expired_sessions p current_time)"

text \<open>
  What the environment supplies to one \<^verbatim>\<open>create_session\<close>: the clock at the sweep, the
  \<^verbatim>\<open>uuid4\<close>, and the clock at the construction and at the end of the initialisation of
  the new session.
\<close>

record create_env =
  t_sweep :: real
  new_id :: string
  t_ctor :: real
  t_init :: real

text \<open>
  \<^verbatim>\<open>create_session\<close>, whose body runs with the lock held: sweep, capacity check,
  construction and initialisation, registration.
\<close>

definition create_session ::
  "capability \<Rightarrow> browser_pool \<Rightarrow> create_env \<Rightarrow> string outcome \<times> browser_pool \<times> event list" where
  "create_session cap p env =
     with_lock p (\<lambda>p1.
       case cleanup_expired_sessions cap p1 (t_sweep env) of
         (Blocks, p2, t) \<Rightarrow> (Blocks, p2, t)
       | (Raises e, p2, t) \<Rightarrow> (Raises e, p2, t)
       | (Returns u, p2, t) \<Rightarrow>
           if int (length (sessions p2)) \<ge> max_sessions p2
           then (Raises (PoolExhausted (max_sessions p2)), p2, t)
           else
             (case initialize cap (new_session (new_id env) (t_ctor env) (t_ctor env)) (t_init env) of
                (Returns b, s1, t') \<Rightarrow>
                  (Returns (new_id env),
                   p2\<lparr>sessions := AList.update (new_id env) s1 (sessions p2)\<rparr>,
                   t @ t' @ [LogInfo])
              | (Raises e, s1, t') \<Rightarrow>
                  (case close cap s1 of
                     (r, s2, t'') \<Rightarrow> (Raises e, p2, t @ t' @ [LogError e] @ t''))
              | (Blocks, s1, t') \<Rightarrow> (Blocks, p2, t @ t')))"

text \<open>The loop of \<^verbatim>\<open>close_all\<close>.\<close>

fun close_sessions :: "capability \<Rightarrow> browser_session list \<Rightarrow> event list" where
  "close_sessions cap [] = []"
| "close_sessions cap (s # ss) = effects (close cap s) @ close_sessions cap ss"

definition close_all :: "capability \<Rightarrow> browser_pool \<Rightarrow> unit outcome \<times> browser_pool \<times> event list" where
  "close_all cap p =
     with_lock p (\<lambda>p1.
       (Returns (), p1\<lparr>sessions := []\<rparr>, close_sessions cap (map snd (sessions p1)) @ [LogInfo]))"

text \<open>
  A caller issuing \<^verbatim>\<open>create_session\<close> and \<^verbatim>\<open>close_session\<close> calls one after the other,
  each with the engine and environment it meets. A call that never completes ends the
  sequence: the caller is stuck in it.
\<close>

datatype pool_op = CreateSession capability create_env | CloseSession capability string

fun apply_op :: "browser_pool \<Rightarrow> pool_op \<Rightarrow> bool \<times> browser_pool" where
  "apply_op p (CreateSession cap env) =
     (case create_session cap p env of (r, p', t) \<Rightarrow> (r = Blocks, p'))"
| "apply_op p (CloseSession cap sid) =
     (case close_session cap p sid of (r, p', t) \<Rightarrow> (r = Blocks, p'))"

fun run :: "browser_pool \<Rightarrow> pool_op list \<Rightarrow> browser_pool" where
  "run p [] = p"
| "run p (x # xs) = (case apply_op p x of (stuck, p') \<Rightarrow> if stuck then p' else run p' xs)"


subsection \<open>Notions used in the statements\<close>

text \<open>A stored record that a response to \<open>u\<close> can still fill.\<close>

definition pending :: "string \<Rightarrow> request_data \<Rightarrow> bool" where
  "pending u req = (url req = u \<and> response req = None)"

text \<open>The filter test of the callbacks lets an event with URL \<open>u\<close> through.\<close>

definition admits :: "re_search \<Rightarrow> network_interceptor \<Rightarrow> string \<Rightarrow> bool" where
  "admits search itc u = (filtered_out search itc u = Inr False)"

text \<open>The number of positions at which two stores differ.\<close>

fun changed_records :: "request_data list \<Rightarrow> request_data list \<Rightarrow> nat" where
  "changed_records (x # xs) (y # ys) = (if x = y then 0 else 1) + changed_records xs ys"
| "changed_records xs ys = 0"

text \<open>The handle of a resource is set.\<close>

fun held :: "browser_session \<Rightarrow> resource \<Rightarrow> bool" where
  "held s Page = (page s \<noteq> None)"
| "held s Context = (context s \<noteq> None)"
| "held s Browser = (browser s \<noteq> None)"
| "held s Playwright = (playwright s \<noteq> None)"

definition release_order :: "resource list" where
  "release_order = [Page, Context, Browser, Playwright]"

text \<open>The last record of \<^verbatim>\<open>close\<close> in the log, given the steps that were not completed.\<close>

definition close_log :: "capability \<Rightarrow> resource list \<Rightarrow> event" where
  "close_log cap rest =
     (case rest of
        [] \<Rightarrow> LogInfo
      | r # rs \<Rightarrow> (case release cap r of None \<Rightarrow> LogInfo | Some e \<Rightarrow> LogError e))"

text \<open>The number of registered sessions, \<^verbatim>\<open>len(self.sessions)\<close>.\<close>

definition session_count :: "browser_pool \<Rightarrow> int" where
  "session_count p = int (length (sessions p))"

subsection \<open>Concrete engines and events for the examples\<close>

text \<open>
  \<^verbatim>\<open>re.search\<close> on the patterns of the examples: a pattern without metacharacters is
  found where it occurs as a substring; the pattern \<^verbatim>\<open>(\<close> does not compile.
\<close>

definition occurs_in :: "string \<Rightarrow> string \<Rightarrow> bool" where
  "occurs_in p u = list_ex (\<lambda>i. take (length p) (drop i u) = p) [0..<Suc (length u)]"

definition literal_search :: re_search where
  "literal_search p u =
     (if p = ''('' then Inl (PatternError ''missing ), unterminated subpattern'')
      else Inr (occurs_in p u))"

text \<open>An engine on which every call succeeds.\<close>

definition cap_ok :: capability where
  "cap_ok =
     \<lparr>init_outcome = (\<lambda>st. None),
      third_party_stealth = Some None,
      goto = (\<lambda>u t. Inr u),
      evaluate = (\<lambda>script. Inr PyNone),
      content = Inr ''<html></html>'',
      wait_for = (\<lambda>sel t. None),
      click_on = (\<lambda>sel. None),
      fill = (\<lambda>sel txt. None),
      query_selector = (\<lambda>sel. Inr None),
      page_screenshot = (\<lambda>full. Inr []),
      set_extra_http_headers = (\<lambda>hs. None),
      add_cookies = (\<lambda>cs. None),
      cookies = (\<lambda>u. Inr []),
      release = (\<lambda>r. None)\<rparr>"

text \<open>The same engine, except that \<^verbatim>\<open>page.close()\<close> raises.\<close>

definition cap_page_close_fails :: capability where
  "cap_page_close_fails =
     cap_ok\<lparr>release := (\<lambda>r. if r = Page then Some (CapabilityFailure ''page crashed'') else None)\<rparr>"

text \<open>The same engine, except that \<^verbatim>\<open>page.goto\<close> raises.\<close>

definition cap_goto_fails :: capability where
  "cap_goto_fails = cap_ok\<lparr>goto := (\<lambda>u t. Inl (CapabilityFailure ''net::ERR_FAILED''))\<rparr>"

text \<open>A session as \<^verbatim>\<open>create_session\<close> registers it: constructed, then initialised.\<close>

definition live_session :: browser_session where
  "live_session = after (initialize cap_ok (new_session ''s1'' 0 0) 1)"

definition ev_get :: request_ev where
  "ev_get = \<lparr>ev_url = ''/other'', ev_method = ''GET'', ev_headers = Map.empty,
             ev_post_data = Inr None\<rparr>"

definition ev_put :: request_ev where
  "ev_put = \<lparr>ev_url = ''/api/item'', ev_method = ''PUT'', ev_headers = Map.empty,
             ev_post_data = Inr (Some ''x=1'')\<rparr>"

definition ev_post :: request_ev where
  "ev_post = \<lparr>ev_url = ''/api/item'', ev_method = ''POST'', ev_headers = Map.empty,
              ev_post_data = Inr (Some ''x=1'')\<rparr>"

text \<open>A \<^verbatim>\<open>POST\<close> whose body is not valid UTF-8.\<close>

definition ev_post_binary :: request_ev where
  "ev_post_binary = \<lparr>ev_url = ''/api/upload'', ev_method = ''POST'', ev_headers = Map.empty,
     ev_post_data = Inl (DecodeError ''invalid start byte'')\<rparr>"

definition resp_first :: response_ev where
  "resp_first = \<lparr>rs_url = ''/other'', rs_status = 200, rs_headers = Map.empty, rs_body = Inr ''first''\<rparr>"

definition resp_second :: response_ev where
  "resp_second = \<lparr>rs_url = ''/other'', rs_status = 404, rs_headers = Map.empty,
                  rs_body = Inl (CapabilityFailure ''body unavailable'')\<rparr>"

text \<open>An interceptor that has seen two requests to \<^verbatim>\<open>/other\<close> and no response yet.\<close>

definition two_pending :: network_interceptor where
  "two_pending =
     after (on_request literal_search
              (after (on_request literal_search new_interceptor ev_get ''id1'' 1)) ev_get ''id2'' 2)"

text \<open>
  A pool for one session in which session \<^verbatim>\<open>A\<close> was created at time 0, and the
  environments of a later \<^verbatim>\<open>create_session\<close>: ten seconds later, and 4000 seconds later.
\<close>

definition env_A :: create_env where
  "env_A = \<lparr>t_sweep = 0, new_id = ''A'', t_ctor = 0, t_init = 0\<rparr>"

definition env_B_soon :: create_env where
  "env_B_soon = \<lparr>t_sweep = 10, new_id = ''B'', t_ctor = 10, t_init = 10\<rparr>"

definition env_B_late :: create_env where
  "env_B_late = \<lparr>t_sweep = 4000, new_id = ''B'', t_ctor = 4000, t_init = 4000\<rparr>"

definition session_A :: browser_session where
  "session_A = after (initialize cap_ok (new_session ''A'' 0 0) 0)"

definition pool_with_A :: browser_pool where
  "pool_with_A = after (create_session cap_ok (new_pool 1 3600) env_A)"


section \<open>Properties of the interceptor\<close>

lemmas interceptor_defs =
  on_request_def on_request_try_def post_data_read_def on_response_def on_response_begin_def
  on_response_resume_def filtered_out_def
  new_interceptor_def set_url_pattern_def after_def effects_def result_def
  response_of_def body_warning_def

lemma get_requests_eq:
  "get_requests itc = filter (\<lambda>req. response req \<noteq> None) (requests itc)"
  by (simp add: get_requests_def truthy_response_def split: option.splits)

lemma two_pending_requests:
  "requests two_pending =
     [\<lparr>request_id = ''id1'', url = ''/other'', method = ''GET'', headers = Map.empty,
       post_data = None, timestamp = 1, response = None\<rparr>,
      \<lparr>request_id = ''id2'', url = ''/other'', method = ''GET'', headers = Map.empty,
       post_data = None, timestamp = 2, response = None\<rparr>]"
  "url_pattern two_pending = None"
  by (simp_all add: two_pending_def interceptor_defs ev_get_def)

text \<open>
  \<^bold>\<open>C4.\<close> \<^verbatim>\<open>get_requests\<close> returns exactly the stored records whose response slot is
  populated, in the order of the store: it is the store filtered by "has a response",
  so no returned record has an empty slot, every stored record with a response is
  returned, and the result is a subsequence of the store.
\<close>

theorem get_requests_populated_in_order:
  "get_requests itc = filter (\<lambda>req. response req \<noteq> None) (requests itc)
   \<and> (\<forall>req \<in> set (get_requests itc). response req \<noteq> None)
   \<and> (\<forall>req \<in> set (requests itc). response req \<noteq> None \<longrightarrow> req \<in> set (get_requests itc))
   \<and> subseq (get_requests itc) (requests itc)"
  by (simp add: get_requests_eq)

theorem get_requests_populated_in_order_witness:
  "map request_id (requests (after (on_response literal_search two_pending resp_first)))
       = [''id1'', ''id2'']
   \<and> map response (requests (after (on_response literal_search two_pending resp_first)))
       = [Some (response_of resp_first), None]
   \<and> map request_id (get_requests (after (on_response literal_search two_pending resp_first)))
       = [''id1'']"
  using get_requests_populated_in_order
    [of "after (on_response literal_search two_pending resp_first)"]
  by (simp add: two_pending_requests interceptor_defs resp_first_def)

subsection \<open>Matching responses to requests\<close>

lemma first_pending_split:
  "\<not> list_ex (pending u) pre \<Longrightarrow> pending u a \<Longrightarrow>
   first_pending u (pre @ a # post) = Some (length pre)"
  by (induction pre) (auto simp: pending_def)

lemma changed_records_same [simp]: "changed_records xs xs = 0"
  by (induction xs) auto

lemma changed_records_update: "changed_records xs (xs[i := x]) \<le> Suc 0"
  by (induction xs arbitrary: i) (auto split: nat.splits)

lemma on_response_resume_at_most_one:
  "length (requests (fst (on_response_resume itc rs task))) = length (requests itc)
   \<and> changed_records (requests itc) (requests (fst (on_response_resume itc rs task))) \<le> 1"
  by (cases task) (simp_all add: on_response_resume_def changed_records_update)

lemma on_response_after:
  "after (on_response search itc rs)
     = fst (on_response_resume itc rs (fst (on_response_begin search itc rs)))"
  by (simp add: on_response_def after_def split: prod.splits)

lemma on_response_at_most_one:
  "length (requests (after (on_response search itc rs))) = length (requests itc)
   \<and> changed_records (requests itc) (requests (after (on_response search itc rs))) \<le> 1"
  by (simp only: on_response_after on_response_resume_at_most_one)

lemma on_response_begin_admitted:
  assumes "admits search itc (rs_url rs)" and "requests itc = pre @ a # post"
    and "\<not> list_ex (pending (rs_url rs)) pre" and "pending (rs_url rs) a"
  shows "on_response_begin search itc rs = (Suspended (length pre) (request_id a), [])"
  using assms by (simp add: on_response_begin_def admits_def first_pending_split)

lemma on_response_resume_held:
  assumes "requests itc = pre @ a # post"
  shows "on_response_resume itc rs (Suspended (length pre) (request_id a))
           = (itc\<lparr>requests := pre @ a\<lparr>response := Some (response_of rs)\<rparr> # post\<rparr>,
              body_warning rs)"
  using assms by (simp add: on_response_resume_def)

lemma on_response_admitted:
  assumes "admits search itc (rs_url rs)" and "requests itc = pre @ a # post"
    and "\<not> list_ex (pending (rs_url rs)) pre" and "pending (rs_url rs) a"
  shows "on_response search itc rs =
           (Returns (),
            itc\<lparr>requests := pre @ a\<lparr>response := Some (response_of rs)\<rparr> # post\<rparr>,
            body_warning rs)"
  by (simp add: on_response_def on_response_begin_admitted [OF assms]
      on_response_resume_held [OF assms(2)])


lemma admits_requests_update [simp]:
  "admits search (itc\<lparr>requests := xs\<rparr>) u = admits search itc u"
  by (simp add: admits_def filtered_out_def)




text \<open>
  When the two handlers overlap, the second starting its scan while the first is
  still waiting for its body, both hold the first record: it ends up with the response
  stored last and the second record stays without a response.
\<close>

lemma overlapping_handlers_hold_same_record:
  assumes adm: "admits search itc u"
    and r1: "rs_url r1 = u" and r2: "rs_url r2 = u"
    and store: "requests itc = pre @ a # post"
    and a: "pending u a" and pre: "\<not> list_ex (pending u) pre"
    and begin1: "on_response_begin search itc r1 = (task1, log1)"
    and begin2: "on_response_begin search itc r2 = (task2, log2)"
    and resume1: "on_response_resume itc r1 task1 = (itc1, log1')"
    and resume2: "on_response_resume itc1 r2 task2 = (itc2, log2')"
  shows "requests itc2 = pre @ a\<lparr>response := Some (response_of r2)\<rparr> # post"
proof -
  have t1: "task1 = Suspended (length pre) (request_id a)"
    using on_response_begin_admitted [of search itc r1 pre a post] adm r1 store a pre begin1
    by simp
  have t2: "task2 = Suspended (length pre) (request_id a)"
    using on_response_begin_admitted [of search itc r2 pre a post] adm r2 store a pre begin2
    by simp
  have i1: "itc1 = itc\<lparr>requests := pre @ a\<lparr>response := Some (response_of r1)\<rparr> # post\<rparr>"
    using on_response_resume_held [OF store, of r1] resume1 t1 by simp
  have "on_response_resume itc1 r2 (Suspended (length pre) (request_id a))
          = (itc1\<lparr>requests := pre @ a\<lparr>response := Some (response_of r2)\<rparr> # post\<rparr>,
             body_warning r2)"
    using on_response_resume_held
      [of itc1 pre "a\<lparr>response := Some (response_of r1)\<rparr>" post r2]
    by (simp add: i1)
  then show ?thesis using resume2 t2 by auto
qed

lemma overlapping_responses_example:
  "on_response_begin literal_search two_pending resp_first = (Suspended 0 ''id1'', [])
   \<and> on_response_begin literal_search two_pending resp_second = (Suspended 0 ''id1'', [])
   \<and> map response (requests (fst (on_response_resume
        (fst (on_response_resume two_pending resp_first (Suspended 0 ''id1'')))
        resp_second (Suspended 0 ''id1''))))
       = [Some \<lparr>status_code = 404, r_headers = Map.empty, body = None\<rparr>, None]"
  by (simp add: on_response_begin_def on_response_resume_def filtered_out_def
      two_pending_requests resp_first_def resp_second_def response_of_def)

section \<open>Properties of the session\<close>

lemmas session_op_defs =
  navigate_def execute_script_def get_content_def wait_for_selector_def click_def
  type_text_def screenshot_def set_extra_headers_def set_cookies_def get_cookies_def

lemma live_session_eq:
  "live_session =
     \<lparr>session_id = ''s1'', browser = Some Handle, context = Some Handle, page = Some Handle,
      playwright = Some Handle, network_interceptor = \<lparr>requests = [], url_pattern = None\<rparr>,
      custom_headers = Map.empty, created_at = 0, last_activity = 1\<rparr>"
  by (simp add: live_session_def initialize_def initialize_try_def cap_ok_def new_session_def
      new_interceptor_def after_def inject_third_party_def)

text \<open>
  \<^bold>\<open>C6.\<close> On a session whose \<^verbatim>\<open>page\<close> and \<^verbatim>\<open>context\<close> are \<^verbatim>\<open>None\<close>, as the
  constructor leaves them, each of the ten guarded operations raises
  \<open>UninitializedSession\<close>, makes no engine call, writes no log record and leaves the
  session as it was, whatever the engine and the arguments.
\<close>

theorem uninitialized_session_rejects:
  assumes "page s = None" and "context s = None"
  shows "run_op cap s now op = (Some UninitializedSession, s, [])"
  using assms
  by (cases op) (simp_all add: session_op_defs seen_def raised_def result_def after_def effects_def)

theorem uninitialized_session_rejects_witness:
  "page (new_session ''s1'' 0 0) = None \<and> context (new_session ''s1'' 0 0) = None
   \<and> run_op cap_ok (new_session ''s1'' 0 0) 5 (Navigate ''http://example.com'' 30)
       = (Some UninitializedSession, new_session ''s1'' 0 0, [])
   \<and> run_op cap_ok (new_session ''s1'' 0 0) 5 (SetExtraHeaders [''X-A'' \<mapsto> ''1''])
       = (Some UninitializedSession, new_session ''s1'' 0 0, [])"
  using uninitialized_session_rejects
      [of "new_session ''s1'' 0 0" cap_ok 5 "Navigate ''http://example.com'' 30"]
    uninitialized_session_rejects
      [of "new_session ''s1'' 0 0" cap_ok 5 "SetExtraHeaders [''X-A'' \<mapsto> ''1'']"]
  by (simp add: new_session_def)

subsection \<open>Accumulated headers\<close>

lemma set_extra_headers_custom:
  "context s \<noteq> None \<Longrightarrow>
   custom_headers (after (set_extra_headers cap s hs now)) = custom_headers s ++ hs
   \<and> context (after (set_extra_headers cap s hs now)) = context s
   \<and> hd (effects (set_extra_headers cap s hs now))
       = Call (SetExtraHttpHeaders (custom_headers s ++ hs))"
  by (auto simp: set_extra_headers_def after_def effects_def Let_def split: option.splits)

text \<open>
  \<^bold>\<open>C7.\<close> On an initialised session (the guard of \<^verbatim>\<open>set_extra_headers\<close> passes), two
  calls with mappings \<open>h1\<close> and \<open>h2\<close> of disjoint keys leave the accumulated mapping equal
  to the old one overridden by \<open>h1\<close> and then by \<open>h2\<close>: it contains both, the keys named by
  neither keep their values, and the second call hands exactly this mapping to the
  engine. This holds whether or not the engine accepts the calls.
\<close>

theorem set_extra_headers_additive:
  assumes init: "context s \<noteq> None" and disj: "dom h1 \<inter> dom h2 = {}"
  shows "custom_headers (after (set_extra_headers cap2 (after (set_extra_headers cap1 s h1 t1)) h2 t2))
           = custom_headers s ++ h1 ++ h2
         \<and> h1 \<subseteq>\<^sub>m custom_headers s ++ h1 ++ h2
         \<and> h2 \<subseteq>\<^sub>m custom_headers s ++ h1 ++ h2
         \<and> (\<forall>k. k \<notin> dom h1 \<union> dom h2 \<longrightarrow> (custom_headers s ++ h1 ++ h2) k = custom_headers s k)
         \<and> hd (effects (set_extra_headers cap2 (after (set_extra_headers cap1 s h1 t1)) h2 t2))
             = Call (SetExtraHttpHeaders (custom_headers s ++ h1 ++ h2))"
proof -
  let ?s1 = "after (set_extra_headers cap1 s h1 t1)"
  have s1: "custom_headers ?s1 = custom_headers s ++ h1" "context ?s1 \<noteq> None"
    using set_extra_headers_custom [OF init, of cap1 h1 t1] init by simp_all
  have s2:
    "custom_headers (after (set_extra_headers cap2 ?s1 h2 t2)) = custom_headers s ++ h1 ++ h2"
    "hd (effects (set_extra_headers cap2 ?s1 h2 t2))
       = Call (SetExtraHttpHeaders (custom_headers s ++ h1 ++ h2))"
    using set_extra_headers_custom [OF s1(2), of cap2 h2 t2] s1(1) by simp_all
  have le1: "h1 \<subseteq>\<^sub>m custom_headers s ++ h1 ++ h2"
    using disj by (auto simp: map_le_def map_add_def dom_def split: option.splits)
  have le2: "h2 \<subseteq>\<^sub>m custom_headers s ++ h1 ++ h2"
    by (auto simp: map_le_def map_add_def dom_def split: option.splits)
  have keep: "\<forall>k. k \<notin> dom h1 \<union> dom h2 \<longrightarrow> (custom_headers s ++ h1 ++ h2) k = custom_headers s k"
    by (auto simp: map_add_def dom_def split: option.splits)
  show ?thesis using s2 le1 le2 keep by simp
qed

theorem set_extra_headers_additive_witness:
  "context live_session \<noteq> None
   \<and> dom [''X-A'' \<mapsto> ''1''] \<inter> dom [''X-B'' \<mapsto> ''2''] = ({} :: string set)
   \<and> custom_headers (after (set_extra_headers cap_ok
        (after (set_extra_headers cap_ok live_session [''X-A'' \<mapsto> ''1''] 2))
        [''X-B'' \<mapsto> ''2''] 3))
       = [''X-A'' \<mapsto> ''1'', ''X-B'' \<mapsto> ''2'']
   \<and> effects (set_extra_headers cap_ok
        (after (set_extra_headers cap_ok live_session [''X-A'' \<mapsto> ''1''] 2))
        [''X-B'' \<mapsto> ''2''] 3)
       = [Call (SetExtraHttpHeaders [''X-A'' \<mapsto> ''1'', ''X-B'' \<mapsto> ''2''])]"
  using set_extra_headers_additive
      [of live_session "[''X-A'' \<mapsto> ''1'']" "[''X-B'' \<mapsto> ''2'']" cap_ok cap_ok 2 3]
  by (simp add: live_session_eq set_extra_headers_def cap_ok_def after_def effects_def)

subsection \<open>Teardown\<close>

lemma all_resources: "(\<forall>r. P r) = (P Page \<and> P Context \<and> P Browser \<and> P Playwright)"
  by (metis resource.exhaust)

lemma close_returns: "result (close cap s) = Returns ()"
  by (simp add: close_def release_step_def result_def Let_def split: option.splits)

text \<open>
  \<^bold>\<open>C8\<close> (as amended). \<^verbatim>\<open>close\<close> attempts the release steps in the fixed order page,
  context, browser, driver, skipping the handles that are not set, and stops at the
  first step that raises: the calls made are the releases that succeed up to there
  followed by the failing one, the failure is logged and not raised, and exactly the
  handles from the failing one on stay set. When no step fails all four handles end
  up cleared.
\<close>

theorem close_stops_at_first_failure:
  "effects (close cap s) =
     map (\<lambda>r. Call (Release r))
       (takeWhile (\<lambda>r. release cap r = None) (filter (held s) release_order)
        @ take 1 (dropWhile (\<lambda>r. release cap r = None) (filter (held s) release_order)))
     @ [close_log cap (dropWhile (\<lambda>r. release cap r = None) (filter (held s) release_order))]
   \<and> (\<forall>r. held (after (close cap s)) r
           = (r \<in> set (dropWhile (\<lambda>r. release cap r = None) (filter (held s) release_order))))
   \<and> result (close cap s) = Returns ()"
  apply (cases "page s"; cases "context s"; cases "browser s"; cases "playwright s";
      cases "release cap Page"; cases "release cap Context"; cases "release cap Browser";
      cases "release cap Playwright")
  apply (simp_all add: close_def release_step_def release_order_def close_log_def
      after_def effects_def result_def all_resources)
  done

theorem close_stops_at_first_failure_witness:
  "effects (close cap_ok live_session)
     = [Call (Release Page), Call (Release Context), Call (Release Browser),
        Call (Release Playwright), LogInfo]
   \<and> \<not> held (after (close cap_ok live_session)) Page
   \<and> \<not> held (after (close cap_ok live_session)) Playwright"
  using close_stops_at_first_failure [of cap_ok live_session]
  by (simp add: live_session_eq cap_ok_def release_order_def close_log_def all_resources)

text \<open>
  The claim as stated fails: when \<^verbatim>\<open>page.close()\<close> raises on a session holding all four
  resources, the only call made is that one; context, browser and driver are not
  released and their handles stay set.
\<close>

theorem close_independent_steps_counterexample:
  "held live_session Page \<and> held live_session Context \<and> held live_session Browser
   \<and> held live_session Playwright
   \<and> release cap_page_close_fails Page = Some (CapabilityFailure ''page crashed'')
   \<and> effects (close cap_page_close_fails live_session)
       = [Call (Release Page), LogError (CapabilityFailure ''page crashed'')]
   \<and> held (after (close cap_page_close_fails live_session)) Context
   \<and> held (after (close cap_page_close_fails live_session)) Browser
   \<and> held (after (close cap_page_close_fails live_session)) Playwright"
  by (simp add: live_session_eq cap_page_close_fails_def cap_ok_def close_def release_step_def
      after_def effects_def)


section \<open>Recording requests\<close>

lemma on_request_admitted:
  "admits search itc (ev_url ev) \<Longrightarrow> post_data_read ev = Inr d \<Longrightarrow>
   on_request search itc ev rid now =
     (Returns (),
      itc\<lparr>requests := requests itc @
        [\<lparr>request_id = rid, url = ev_url ev, method = ev_method ev, headers = ev_headers ev,
          post_data = d, timestamp = now, response = None\<rparr>]\<rparr>,
      [])"
  by (simp add: admits_def on_request_def on_request_try_def)

lemma on_request_unreadable:
  "admits search itc (ev_url ev) \<Longrightarrow> post_data_read ev = Inl e \<Longrightarrow>
   on_request search itc ev rid now = (Returns (), itc, [LogError e])"
  by (simp add: admits_def on_request_def on_request_try_def)

text \<open>
  \<^bold>\<open>C10\<close> (as amended). A request event that passes the filter and whose post data,
  if its method is \<^verbatim>\<open>POST\<close>, can be read, appends one record; the record's body field
  is the request's post data when the method is exactly \<^verbatim>\<open>POST\<close> (so it is null for a
  \<^verbatim>\<open>POST\<close> without post data) and null for every other method, \<^verbatim>\<open>PUT\<close> and \<^verbatim>\<open>PATCH\<close>
  included. A \<^verbatim>\<open>POST\<close> that passes the filter and whose post data cannot be read is not
  recorded: the error is logged and the store stays as it was.
\<close>

theorem on_request_post_data:
  assumes "admits search itc (ev_url ev)"
  shows "(\<forall>d. (ev_method ev = ''POST'' \<longrightarrow> ev_post_data ev = Inr d) \<longrightarrow>
            butlast (requests (after (on_request search itc ev rid now))) = requests itc
            \<and> length (requests (after (on_request search itc ev rid now)))
                = Suc (length (requests itc))
            \<and> method (last (requests (after (on_request search itc ev rid now)))) = ev_method ev
            \<and> post_data (last (requests (after (on_request search itc ev rid now))))
                = (if ev_method ev = ''POST'' then d else None))
         \<and> (\<forall>e. ev_method ev = ''POST'' \<and> ev_post_data ev = Inl e \<longrightarrow>
              on_request search itc ev rid now = (Returns (), itc, [LogError e]))"
proof -
  have recorded: "butlast (requests (after (on_request search itc ev rid now))) = requests itc
            \<and> length (requests (after (on_request search itc ev rid now)))
                = Suc (length (requests itc))
            \<and> method (last (requests (after (on_request search itc ev rid now)))) = ev_method ev
            \<and> post_data (last (requests (after (on_request search itc ev rid now))))
                = (if ev_method ev = ''POST'' then d else None)"
    if "ev_method ev = ''POST'' \<longrightarrow> ev_post_data ev = Inr d" for d
  proof -
    have "post_data_read ev = Inr (if ev_method ev = ''POST'' then d else None)"
      using that by (simp add: post_data_read_def)
    then show ?thesis
      using assms by (simp add: on_request_admitted after_def)
  qed
  have unread: "on_request search itc ev rid now = (Returns (), itc, [LogError e])"
    if "ev_method ev = ''POST'' \<and> ev_post_data ev = Inl e" for e
    using that assms by (simp add: on_request_unreadable post_data_read_def)
  show ?thesis using recorded unread by blast
qed

theorem on_request_post_data_witness:
  "admits literal_search new_interceptor (ev_url ev_post)
   \<and> ev_method ev_post = ''POST'' \<and> ev_post_data ev_post = Inr (Some ''x=1'')
   \<and> map method (requests (after (on_request literal_search new_interceptor ev_post ''id1'' 1)))
       = [''POST'']
   \<and> map post_data (requests (after (on_request literal_search new_interceptor ev_post ''id1'' 1)))
       = [Some ''x=1'']
   \<and> admits literal_search new_interceptor (ev_url ev_post_binary)
   \<and> ev_method ev_post_binary = ''POST''
   \<and> on_request literal_search new_interceptor ev_post_binary ''id2'' 2
       = (Returns (), new_interceptor, [LogError (DecodeError ''invalid start byte'')])"
  using on_request_post_data [of literal_search new_interceptor ev_post "''id1''" 1]
    on_request_post_data [of literal_search new_interceptor ev_post_binary "''id2''" 2]
  by (simp add: admits_def interceptor_defs ev_post_def ev_post_binary_def)

text \<open>
  The claim as stated fails: a \<^verbatim>\<open>PUT\<close> request, whose method carries a body and whose
  post data is \<^verbatim>\<open>x=1\<close>, is recorded with a null body field.
\<close>

theorem on_request_put_body_counterexample:
  "ev_method ev_put = ''PUT'' \<and> ev_post_data ev_put = Inr (Some ''x=1'')
   \<and> map method (requests (after (on_request literal_search new_interceptor ev_put ''id1'' 1)))
       = [''PUT'']
   \<and> map post_data (requests (after (on_request literal_search new_interceptor ev_put ''id1'' 1)))
       = [None]"
  by (simp add: interceptor_defs ev_put_def)

section \<open>Which failures are swallowed, which propagate\<close>

lemma on_request_returns: "result (on_request search itc ev rid now) = Returns ()"
  by (simp add: on_request_def result_def split: sum.splits)

lemma on_response_returns: "result (on_response search itc rs) = Returns ()"
  by (simp add: on_response_def result_def split: prod.splits)

lemma on_request_swallows:
  "filtered_out search itc (ev_url ev) = Inl e \<Longrightarrow>
   on_request search itc ev rid now = (Returns (), itc, [LogError e])"
  by (simp add: on_request_def on_request_try_def)

lemma on_response_swallows:
  "filtered_out search itc (rs_url rs) = Inl e \<Longrightarrow>
   on_response search itc rs = (Returns (), itc, [LogError e])"
  by (simp add: on_response_def on_response_begin_def on_response_resume_def)

lemma on_response_body_failure:
  assumes "rs_body rs = Inl e" and "admits search itc (rs_url rs)"
    and "requests itc = pre @ a # post"
    and "\<not> list_ex (pending (rs_url rs)) pre" and "pending (rs_url rs) a"
  shows "on_response search itc rs =
           (Returns (),
            itc\<lparr>requests := pre @
              a\<lparr>response := Some \<lparr>status_code = rs_status rs, r_headers = rs_headers rs,
                                   body = None\<rparr>\<rparr> # post\<rparr>,
            [LogWarning (Some e)])"
  using on_response_admitted [OF assms(2-5)] assms(1)
  by (simp add: response_of_def body_warning_def)

lemma initialize_ignores_third_party:
  "init_outcome cap = (\<lambda>st. None) \<Longrightarrow> result (initialize cap s now) = Returns True"
  by (simp add: initialize_def initialize_try_def result_def)

lemma page_ops_propagate:
  assumes "page s \<noteq> None"
  shows "goto cap u (timeout * 1000) = Inl e \<Longrightarrow> navigate cap s u timeout now
           = (Raises e, s, [Call (Goto u (timeout * 1000)), LogError e])"
    and "evaluate cap script = Inl e \<Longrightarrow> execute_script cap s script now
           = (Raises e, s, [Call (Evaluate script), LogError e])"
    and "content cap = Inl e \<Longrightarrow> get_content cap s now = (Raises e, s, [Call Content, LogError e])"
    and "wait_for cap sel (timeout * 1000) = Some e \<Longrightarrow> wait_for_selector cap s sel timeout now
           = (Raises e, s, [Call (WaitForSelector sel (timeout * 1000)), LogError e])"
    and "click_on cap sel = Some e \<Longrightarrow> click cap s sel now
           = (Raises e, s, [Call (Click sel), LogError e])"
    and "fill cap sel txt = Some e \<Longrightarrow> type_text cap s sel txt now
           = (Raises e, s, [Call (Fill sel txt), LogError e])"
  using assms by (auto simp: session_op_defs)

lemma screenshot_propagates:
  assumes "page s \<noteq> None"
  shows "truthy_str sel \<Longrightarrow> query_selector cap (the sel) = Inl e \<Longrightarrow>
           result (screenshot cap s sel full now) = Raises e"
    and "truthy_str sel \<Longrightarrow> query_selector cap (the sel) = Inr (Some (Inl e)) \<Longrightarrow>
           result (screenshot cap s sel full now) = Raises e"
    and "\<not> truthy_str sel \<Longrightarrow> page_screenshot cap full = Inl e \<Longrightarrow>
           result (screenshot cap s sel full now) = Raises e"
  using assms by (auto simp: session_op_defs result_def)

lemma context_ops_propagate:
  assumes "context s \<noteq> None"
  shows "set_extra_http_headers cap (custom_headers s ++ hs) = Some e \<Longrightarrow>
           result (set_extra_headers cap s hs now) = Raises e"
    and "add_cookies cap cs = Some e \<Longrightarrow> set_cookies cap s cs now
           = (Raises e, s, [Call (AddCookies cs), LogError e])"
    and "cookies cap (if truthy_str u then u else None) = Inl e \<Longrightarrow>
           result (get_cookies cap s u now) = Raises e"
  using assms by (auto simp: session_op_defs result_def Let_def)

text \<open>
  \<^bold>\<open>C9\<close> (as amended). A failure to fetch the body of a response is swallowed by
  \<^verbatim>\<open>on_response\<close>: the matched record keeps status code and headers, its body is null,
  a warning is logged and the call returns. It is not the only swallowed failure:
  an exception raised by the filter test of \<^verbatim>\<open>on_request\<close> or \<^verbatim>\<open>on_response\<close> is
  logged and swallowed with the store unchanged, both callbacks and \<^verbatim>\<open>close\<close> return
  normally on every input, and \<^verbatim>\<open>initialize\<close> succeeds whatever happens to the
  third-party stealth script. On an initialised session a failure of the engine in any
  of the ten operations is raised to the caller unchanged.
\<close>

theorem swallowed_and_propagated_failures:
  "(\<forall>e pre a post.
      rs_body rs = Inl e \<and> admits search itc (rs_url rs) \<and> requests itc = pre @ a # post
      \<and> \<not> list_ex (pending (rs_url rs)) pre \<and> pending (rs_url rs) a \<longrightarrow>
      on_response search itc rs =
        (Returns (),
         itc\<lparr>requests := pre @
           a\<lparr>response := Some \<lparr>status_code = rs_status rs, r_headers = rs_headers rs,
                                body = None\<rparr>\<rparr> # post\<rparr>,
         [LogWarning (Some e)]))
   \<and> (\<forall>e. filtered_out search itc (ev_url ev) = Inl e \<longrightarrow>
          on_request search itc ev rid now = (Returns (), itc, [LogError e]))
   \<and> (\<forall>e. filtered_out search itc (rs_url rs) = Inl e \<longrightarrow>
          on_response search itc rs = (Returns (), itc, [LogError e]))
   \<and> result (on_request search itc ev rid now) = Returns ()
   \<and> result (on_response search itc rs) = Returns ()
   \<and> result (close cap s) = Returns ()
   \<and> (init_outcome cap = (\<lambda>st. None) \<longrightarrow> result (initialize cap s now) = Returns True)
   \<and> (page s \<noteq> None \<longrightarrow>
        (\<forall>e. goto cap u (timeout * 1000) = Inl e \<longrightarrow>
           result (navigate cap s u timeout now) = Raises e)
      \<and> (\<forall>e. evaluate cap script = Inl e \<longrightarrow>
           result (execute_script cap s script now) = Raises e)
      \<and> (\<forall>e. content cap = Inl e \<longrightarrow> result (get_content cap s now) = Raises e)
      \<and> (\<forall>e. wait_for cap sel (timeout * 1000) = Some e \<longrightarrow>
           result (wait_for_selector cap s sel timeout now) = Raises e)
      \<and> (\<forall>e. click_on cap sel = Some e \<longrightarrow> result (click cap s sel now) = Raises e)
      \<and> (\<forall>e. fill cap sel txt = Some e \<longrightarrow> result (type_text cap s sel txt now) = Raises e)
      \<and> (\<forall>e. truthy_str osel \<and> query_selector cap (the osel) = Inl e \<longrightarrow>
           result (screenshot cap s osel full now) = Raises e)
      \<and> (\<forall>e. truthy_str osel \<and> query_selector cap (the osel) = Inr (Some (Inl e)) \<longrightarrow>
           result (screenshot cap s osel full now) = Raises e)
      \<and> (\<forall>e. \<not> truthy_str osel \<and> page_screenshot cap full = Inl e \<longrightarrow>
           result (screenshot cap s osel full now) = Raises e))
   \<and> (context s \<noteq> None \<longrightarrow>
        (\<forall>e. set_extra_http_headers cap (custom_headers s ++ hs) = Some e \<longrightarrow>
           result (set_extra_headers cap s hs now) = Raises e)
      \<and> (\<forall>e. add_cookies cap cs = Some e \<longrightarrow> result (set_cookies cap s cs now) = Raises e)
      \<and> (\<forall>e. cookies cap (if truthy_str ou then ou else None) = Inl e \<longrightarrow>
           result (get_cookies cap s ou now) = Raises e))"
proof -
  have body: "\<forall>e pre a post.
      rs_body rs = Inl e \<and> admits search itc (rs_url rs) \<and> requests itc = pre @ a # post
      \<and> \<not> list_ex (pending (rs_url rs)) pre \<and> pending (rs_url rs) a \<longrightarrow>
      on_response search itc rs =
        (Returns (),
         itc\<lparr>requests := pre @
           a\<lparr>response := Some \<lparr>status_code = rs_status rs, r_headers = rs_headers rs,
                                body = None\<rparr>\<rparr> # post\<rparr>,
         [LogWarning (Some e)])"
    using on_response_body_failure by blast
  have page_part: "page s \<noteq> None \<longrightarrow>
        (\<forall>e. goto cap u (timeout * 1000) = Inl e \<longrightarrow>
           result (navigate cap s u timeout now) = Raises e)
      \<and> (\<forall>e. evaluate cap script = Inl e \<longrightarrow>
           result (execute_script cap s script now) = Raises e)
      \<and> (\<forall>e. content cap = Inl e \<longrightarrow> result (get_content cap s now) = Raises e)
      \<and> (\<forall>e. wait_for cap sel (timeout * 1000) = Some e \<longrightarrow>
           result (wait_for_selector cap s sel timeout now) = Raises e)
      \<and> (\<forall>e. click_on cap sel = Some e \<longrightarrow> result (click cap s sel now) = Raises e)
      \<and> (\<forall>e. fill cap sel txt = Some e \<longrightarrow> result (type_text cap s sel txt now) = Raises e)
      \<and> (\<forall>e. truthy_str osel \<and> query_selector cap (the osel) = Inl e \<longrightarrow>
           result (screenshot cap s osel full now) = Raises e)
      \<and> (\<forall>e. truthy_str osel \<and> query_selector cap (the osel) = Inr (Some (Inl e)) \<longrightarrow>
           result (screenshot cap s osel full now) = Raises e)
      \<and> (\<forall>e. \<not> truthy_str osel \<and> page_screenshot cap full = Inl e \<longrightarrow>
           result (screenshot cap s osel full now) = Raises e)"
    using page_ops_propagate [of s cap] screenshot_propagates [of s]
    by (simp add: result_def)
  have context_part: "context s \<noteq> None \<longrightarrow>
        (\<forall>e. set_extra_http_headers cap (custom_headers s ++ hs) = Some e \<longrightarrow>
           result (set_extra_headers cap s hs now) = Raises e)
      \<and> (\<forall>e. add_cookies cap cs = Some e \<longrightarrow> result (set_cookies cap s cs now) = Raises e)
      \<and> (\<forall>e. cookies cap (if truthy_str ou then ou else None) = Inl e \<longrightarrow>
           result (get_cookies cap s ou now) = Raises e)"
    using context_ops_propagate [of s cap]
    by (simp add: result_def)
  have swallow_req: "\<forall>e. filtered_out search itc (ev_url ev) = Inl e \<longrightarrow>
          on_request search itc ev rid now = (Returns (), itc, [LogError e])"
    by (simp add: on_request_swallows)
  have swallow_resp: "\<forall>e. filtered_out search itc (rs_url rs) = Inl e \<longrightarrow>
          on_response search itc rs = (Returns (), itc, [LogError e])"
    by (simp add: on_response_swallows)
  have init: "init_outcome cap = (\<lambda>st. None) \<longrightarrow> result (initialize cap s now) = Returns True"
    by (simp add: initialize_ignores_third_party)
  show ?thesis
    by (intro conjI body swallow_req swallow_resp on_request_returns on_response_returns
        close_returns init page_part context_part)
qed

theorem swallowed_and_propagated_failures_witness:
  "on_response literal_search
     (after (on_request literal_search new_interceptor ev_get ''id1'' 1)) resp_second
     = (Returns (),
        \<lparr>requests =
           [\<lparr>request_id = ''id1'', url = ''/other'', method = ''GET'', headers = Map.empty,
             post_data = None, timestamp = 1,
             response = Some \<lparr>status_code = 404, r_headers = Map.empty, body = None\<rparr>\<rparr>],
         url_pattern = None\<rparr>,
        [LogWarning (Some (CapabilityFailure ''body unavailable''))])
   \<and> on_request literal_search (set_url_pattern new_interceptor ''('') ev_get ''id1'' 1
     = (Returns (), set_url_pattern new_interceptor ''('',
        [LogError (PatternError ''missing ), unterminated subpattern'')])
   \<and> page live_session \<noteq> None
   \<and> result (navigate cap_goto_fails live_session ''http://example.com'' 30 2)
       = Raises (CapabilityFailure ''net::ERR_FAILED'')"
  using swallowed_and_propagated_failures
    [where rs = resp_second and search = literal_search
       and itc = "after (on_request literal_search new_interceptor ev_get ''id1'' 1)"
       and ev = ev_get and rid = "''id1''" and now = 2 and cap = cap_goto_fails
       and s = live_session and u = "''http://example.com''" and timeout = 30]
  by (simp add: interceptor_defs ev_get_def resp_second_def literal_search_def
      live_session_eq navigate_def cap_goto_fails_def cap_ok_def)

text \<open>
  The claim as stated fails: a filter pattern that does not compile makes \<^verbatim>\<open>re.search\<close>
  raise inside \<^verbatim>\<open>on_request\<close>, which logs the error and returns, recording nothing;
  and \<^verbatim>\<open>close\<close> returns normally when \<^verbatim>\<open>page.close()\<close> raises. Neither is a
  body-decode failure, and neither reaches the caller.
\<close>

theorem only_body_failures_swallowed_counterexample:
  "filtered_out literal_search (set_url_pattern new_interceptor ''('') (ev_url ev_get)
     = Inl (PatternError ''missing ), unterminated subpattern'')
   \<and> on_request literal_search (set_url_pattern new_interceptor ''('') ev_get ''id1'' 1
     = (Returns (), set_url_pattern new_interceptor ''('',
        [LogError (PatternError ''missing ), unterminated subpattern'')])
   \<and> release cap_page_close_fails Page = Some (CapabilityFailure ''page crashed'')
   \<and> result (close cap_page_close_fails live_session) = Returns ()"
  by (simp add: interceptor_defs ev_get_def literal_search_def live_session_eq
      cap_page_close_fails_def cap_ok_def close_def release_step_def)



section \<open>Properties of the pool\<close>

lemma unlock_unlocked [simp]: "\<not> locked p \<Longrightarrow> p\<lparr>locked := False\<rparr> = p"
  by (cases p) simp

lemma relock [simp]: "p\<lparr>locked := True\<rparr>\<lparr>locked := False\<rparr> = p\<lparr>locked := False\<rparr>"
  by simp

lemma close_session_locked: "locked p \<Longrightarrow> close_session cap p sid = (Blocks, p, [])"
  by (simp add: close_session_def with_lock_def)

lemma close_each_locked:
  "locked p \<Longrightarrow> close_each cap p sids = (if sids = [] then (Returns (), p, []) else (Blocks, p, []))"
  by (cases sids) (simp_all add: close_session_locked)

lemma expired_sessions_lock [simp]:
  "expired_sessions (p\<lparr>locked := b\<rparr>) now = expired_sessions p now"
  by (simp add: expired_sessions_def)

lemma cleanup_under_lock:
  "cleanup_expired_sessions cap (p\<lparr>locked := True\<rparr>) now =
     (if expired_sessions p now = [] then (Returns (), p\<lparr>locked := True\<rparr>, [])
      else (Blocks, p\<lparr>locked := True\<rparr>, []))"
  by (simp add: cleanup_expired_sessions_def close_each_locked)

lemma initialize_not_blocked: "initialize cap s now \<noteq> (Blocks, s', t)"
  by (auto simp: initialize_def split: prod.splits option.splits)

lemma create_session_blocks_on_expired:
  "\<not> locked p \<Longrightarrow> expired_sessions p (t_sweep env) \<noteq> [] \<Longrightarrow>
   create_session cap p env = (Blocks, p\<lparr>locked := True\<rparr>, [])"
  by (simp add: create_session_def with_lock_def cleanup_under_lock)

lemma create_session_locked: "locked p \<Longrightarrow> create_session cap p env = (Blocks, p, [])"
  by (simp add: create_session_def with_lock_def)

lemma create_session_full:
  "\<not> locked p \<Longrightarrow> expired_sessions p (t_sweep env) = [] \<Longrightarrow>
   max_sessions p \<le> int (length (sessions p)) \<Longrightarrow>
   create_session cap p env = (Raises (PoolExhausted (max_sessions p)), p, [])"
  by (simp add: create_session_def with_lock_def cleanup_under_lock)

lemma create_session_room:
  "\<not> locked p \<Longrightarrow> expired_sessions p (t_sweep env) = [] \<Longrightarrow>
   int (length (sessions p)) < max_sessions p \<Longrightarrow>
   create_session cap p env =
     (case initialize cap (new_session (new_id env) (t_ctor env) (t_ctor env)) (t_init env) of
        (Returns b, s1, t') \<Rightarrow>
          (Returns (new_id env), p\<lparr>sessions := AList.update (new_id env) s1 (sessions p)\<rparr>,
           t' @ [LogInfo])
      | (Raises e, s1, t') \<Rightarrow> (Raises e, p, t' @ [LogError e] @ effects (close cap s1))
      | (Blocks, s1, t') \<Rightarrow> (Blocks, p\<lparr>locked := True\<rparr>, t'))"
  by (simp add: create_session_def with_lock_def cleanup_under_lock effects_def
      split: prod.splits outcome.splits)

text \<open>A call that completes leaves the lock free.\<close>

lemma close_session_releases_lock:
  "\<not> locked p \<Longrightarrow>
   result (close_session cap p sid) \<noteq> Blocks \<and> \<not> locked (after (close_session cap p sid))"
  by (simp add: close_session_def with_lock_def result_def after_def
      split: option.splits prod.splits)

lemma create_session_releases_lock:
  assumes "\<not> locked p" and "result (create_session cap p env) \<noteq> Blocks"
  shows "\<not> locked (after (create_session cap p env))"
proof (cases "expired_sessions p (t_sweep env) = []")
  case False
  then show ?thesis
    using assms by (simp add: create_session_blocks_on_expired result_def)
next
  case none: True
  show ?thesis
  proof (cases "max_sessions p \<le> int (length (sessions p))")
    case True
    then show ?thesis using assms none by (simp add: create_session_full after_def)
  next
    case False
    then have room: "int (length (sessions p)) < max_sessions p" by simp
    obtain r s1 t' where init:
      "initialize cap (new_session (new_id env) (t_ctor env) (t_ctor env)) (t_init env) = (r, s1, t')"
      by (metis prod_cases3)
    show ?thesis
      using assms
      by (cases r)
        (simp_all add: create_session_room [OF assms(1) none room] init after_def result_def)
  qed
qed

text \<open>Every session that \<^verbatim>\<open>create_session\<close> registers is initialised.\<close>

lemma initialize_sets_handles:
  assumes "initialize cap s now = (Returns b, s', t)"
  shows "page s' \<noteq> None \<and> context s' \<noteq> None \<and> browser s' \<noteq> None \<and> playwright s' \<noteq> None"
  using assms
  by (auto simp: initialize_def initialize_try_def split: prod.splits option.splits)

lemma create_session_registers_initialised:
  assumes "create_session cap p env = (Returns sid, p', t)"
  shows "\<exists>s. get_session p' sid = Some s \<and> page s \<noteq> None \<and> context s \<noteq> None"
proof -
  have free: "\<not> locked p"
  proof
    assume "locked p"
    then show False using assms by (simp add: create_session_locked)
  qed
  have none: "expired_sessions p (t_sweep env) = []"
  proof (rule ccontr)
    assume "expired_sessions p (t_sweep env) \<noteq> []"
    then show False using assms free by (simp add: create_session_blocks_on_expired)
  qed
  have room: "int (length (sessions p)) < max_sessions p"
  proof (rule ccontr)
    assume "\<not> int (length (sessions p)) < max_sessions p"
    then have "max_sessions p \<le> int (length (sessions p))" by simp
    then show False using assms free none by (simp add: create_session_full)
  qed
  obtain r s1 t' where init:
    "initialize cap (new_session (new_id env) (t_ctor env) (t_ctor env)) (t_init env) = (r, s1, t')"
    by (metis prod_cases3)
  show ?thesis
  proof (cases r)
    case (Returns b)
    then have "sid = new_id env"
      and "p' = p\<lparr>sessions := AList.update (new_id env) s1 (sessions p)\<rparr>"
      using assms by (auto simp: create_session_room [OF free none room] init)
    moreover have "page s1 \<noteq> None \<and> context s1 \<noteq> None"
      using initialize_sets_handles init Returns by blast
    ultimately show ?thesis by (simp add: get_session_def update_conv')
  next
    case (Raises e)
    then show ?thesis using assms by (simp add: create_session_room [OF free none room] init)
  next
    case Blocks
    then show ?thesis using assms by (simp add: create_session_room [OF free none room] init)
  qed
qed

subsection \<open>The capacity bound\<close>

lemma length_update_le: "length (AList.update k v al) \<le> Suc (length al)"
  by (induction al) auto

lemma close_session_unlocked:
  "\<not> locked p \<Longrightarrow>
   close_session cap p sid =
     (case map_of (sessions p) sid of
        None \<Rightarrow> (Returns False, p, [])
      | Some s \<Rightarrow> (Returns True, p\<lparr>sessions := AList.delete sid (sessions p)\<rparr>,
                   effects (close cap s) @ [LogInfo]))"
  by (simp add: close_session_def with_lock_def effects_def split: option.splits prod.splits)

lemma close_session_keeps:
  "max_sessions (after (close_session cap p sid)) = max_sessions p
   \<and> session_count (after (close_session cap p sid)) \<le> session_count p"
  by (cases "locked p")
    (auto simp: close_session_locked close_session_unlocked after_def session_count_def
      length_delete_le split: option.splits)

lemma create_session_after:
  assumes "\<not> locked p" and "expired_sessions p (t_sweep env) = []"
    and "int (length (sessions p)) < max_sessions p"
  shows "after (create_session cap p env) = p
         \<or> after (create_session cap p env) = p\<lparr>locked := True\<rparr>
         \<or> (\<exists>s1. after (create_session cap p env)
                  = p\<lparr>sessions := AList.update (new_id env) s1 (sessions p)\<rparr>)"
proof -
  obtain r s1 t' where init:
    "initialize cap (new_session (new_id env) (t_ctor env) (t_ctor env)) (t_init env) = (r, s1, t')"
    by (metis prod_cases3)
  show ?thesis
  proof (cases r)
    case (Returns b)
    then have "after (create_session cap p env)
                 = p\<lparr>sessions := AList.update (new_id env) s1 (sessions p)\<rparr>"
      by (simp add: create_session_room [OF assms] init after_def)
    then show ?thesis by blast
  next
    case (Raises e)
    then show ?thesis by (simp add: create_session_room [OF assms] init after_def)
  next
    case Blocks
    then show ?thesis by (simp add: create_session_room [OF assms] init after_def)
  qed
qed

lemma create_session_keeps:
  assumes "session_count p \<le> max_sessions p"
  shows "max_sessions (after (create_session cap p env)) = max_sessions p
         \<and> session_count (after (create_session cap p env)) \<le> max_sessions p"
proof (cases "locked p")
  case True
  then show ?thesis using assms by (simp add: create_session_locked after_def)
next
  case unlocked: False
  show ?thesis
  proof (cases "expired_sessions p (t_sweep env) = []")
    case False
    then show ?thesis using assms unlocked
      by (simp add: create_session_blocks_on_expired after_def session_count_def)
  next
    case none: True
    show ?thesis
    proof (cases "max_sessions p \<le> int (length (sessions p))")
      case True
      then show ?thesis using assms unlocked none
        by (simp add: create_session_full after_def)
    next
      case False
      then have room: "int (length (sessions p)) < max_sessions p" by simp
      have upd: "int (length (AList.update k v (sessions p))) \<le> max_sessions p" for k v
        using room length_update_le [of k v "sessions p"] by linarith
      from create_session_after [OF unlocked none room, of cap]
      consider "after (create_session cap p env) = p"
        | "after (create_session cap p env) = p\<lparr>locked := True\<rparr>"
        | s1 where "after (create_session cap p env)
                  = p\<lparr>sessions := AList.update (new_id env) s1 (sessions p)\<rparr>"
        by blast
      then show ?thesis
      proof cases
        case 1
        then show ?thesis using assms by simp
      next
        case 2
        then show ?thesis using assms by (simp add: session_count_def)
      next
        case 3
        then show ?thesis using upd by (simp add: session_count_def)
      qed
    qed
  qed
qed

lemma apply_op_keeps:
  assumes "session_count p \<le> max_sessions p"
  shows "max_sessions (snd (apply_op p x)) = max_sessions p
         \<and> session_count (snd (apply_op p x)) \<le> max_sessions p"
proof (cases x)
  case (CreateSession cap env)
  have "snd (apply_op p x) = after (create_session cap p env)"
    by (simp add: CreateSession after_def split: prod.splits)
  then show ?thesis using create_session_keeps [OF assms, of cap env] by simp
next
  case (CloseSession cap sid)
  have "snd (apply_op p x) = after (close_session cap p sid)"
    by (simp add: CloseSession after_def split: prod.splits)
  then show ?thesis using close_session_keeps [of cap p sid] assms by simp
qed

lemma run_keeps:
  "session_count p \<le> max_sessions p \<Longrightarrow>
   max_sessions (run p ops) = max_sessions p \<and> session_count (run p ops) \<le> max_sessions p"
proof (induction ops arbitrary: p)
  case Nil
  then show ?case by simp
next
  case (Cons x xs)
  obtain stuck p' where step: "apply_op p x = (stuck, p')" by (cases "apply_op p x")
  have keep: "max_sessions p' = max_sessions p" "session_count p' \<le> max_sessions p'"
    using apply_op_keeps [OF Cons.prems, of x] step by simp_all
  show ?case
    using Cons.IH [OF keep(2)] keep step by simp
qed

subsection \<open>The example pool\<close>

lemma session_A_eq:
  "session_A =
     \<lparr>session_id = ''A'', browser = Some Handle, context = Some Handle,
      page = Some Handle, playwright = Some Handle,
      network_interceptor = \<lparr>requests = [], url_pattern = None\<rparr>,
      custom_headers = Map.empty, created_at = 0, last_activity = 0\<rparr>"
  by (simp add: session_A_def initialize_def initialize_try_def cap_ok_def new_session_def
      new_interceptor_def after_def inject_third_party_def)

lemma initialize_A:
  "\<exists>t. initialize cap_ok (new_session ''A'' 0 0) 0 = (Returns True, session_A, t)"
  by (simp add: session_A_def initialize_def initialize_try_def cap_ok_def after_def)

lemma create_A:
  "\<exists>t. create_session cap_ok (new_pool 1 3600) env_A =
     (Returns ''A'',
      \<lparr>sessions = [(''A'', session_A)], max_sessions = 1, session_timeout = 3600, locked = False\<rparr>,
      t)"
proof -
  obtain t where init: "initialize cap_ok (new_session ''A'' 0 0) 0 = (Returns True, session_A, t)"
    using initialize_A by blast
  have "create_session cap_ok (new_pool 1 3600) env_A =
     (Returns ''A'',
      \<lparr>sessions = [(''A'', session_A)], max_sessions = 1, session_timeout = 3600, locked = False\<rparr>,
      t @ [LogInfo])"
    by (simp add: create_session_room new_pool_def expired_sessions_def env_A_def init)
  then show ?thesis by blast
qed

lemma pool_with_A_eq:
  "pool_with_A =
     \<lparr>sessions = [(''A'', session_A)], max_sessions = 1, session_timeout = 3600, locked = False\<rparr>"
  using create_A by (auto simp: pool_with_A_def after_def)

lemma no_expiry_soon: "expired_sessions pool_with_A (t_sweep env_B_soon) = []"
  by (simp add: pool_with_A_eq session_A_eq expired_sessions_def env_B_soon_def)

lemma create_B_soon:
  "create_session cap_ok pool_with_A env_B_soon = (Raises (PoolExhausted 1), pool_with_A, [])"
  using create_session_full [of pool_with_A env_B_soon cap_ok] no_expiry_soon
  by (simp add: pool_with_A_eq)

lemma run_A_B: "run (new_pool 1 3600) [CreateSession cap_ok env_A, CreateSession cap_ok env_B_soon]
   = pool_with_A"
proof -
  obtain t where "create_session cap_ok (new_pool 1 3600) env_A = (Returns ''A'', pool_with_A, t)"
    using create_A pool_with_A_eq by auto
  then show ?thesis by (simp add: create_B_soon)
qed

lemma close_A:
  "close cap_ok session_A =
     (Returns (),
      session_A\<lparr>page := None, context := None, browser := None, playwright := None\<rparr>,
      [Call (Release Page), Call (Release Context), Call (Release Browser),
       Call (Release Playwright), LogInfo])"
  by (simp add: session_A_eq close_def release_step_def cap_ok_def)

subsection \<open>Capacity, expiry and closing\<close>

text \<open>
  \<^bold>\<open>C1.\<close> In a pool constructed with a capacity \<open>m\<close> that is not negative, after every
  sequence of \<^verbatim>\<open>create_session\<close> and \<^verbatim>\<open>close_session\<close> calls, whatever the engine,
  the clock and the identifiers do, the number of registered sessions is at most \<open>m\<close>.
  And when the sweep of a \<^verbatim>\<open>create_session\<close> call returns and leaves at least
  \<^verbatim>\<open>max_sessions\<close> sessions registered, the call raises \<open>PoolExhausted\<close>, releases the
  lock and leaves the mapping as it was.
\<close>

theorem pool_capacity_invariant:
  "(0 \<le> m \<longrightarrow> session_count (run (new_pool m timeout) ops) \<le> m)
   \<and> (\<forall>p' t. \<not> locked p
         \<and> cleanup_expired_sessions cap (p\<lparr>locked := True\<rparr>) (t_sweep env) = (Returns (), p', t)
         \<and> max_sessions p \<le> session_count p' \<longrightarrow>
         create_session cap p env = (Raises (PoolExhausted (max_sessions p)), p'\<lparr>locked := False\<rparr>, t)
         \<and> sessions (p'\<lparr>locked := False\<rparr>) = sessions p)"
proof -
  have inv: "0 \<le> m \<longrightarrow> session_count (run (new_pool m timeout) ops) \<le> m"
    using run_keeps [of "new_pool m timeout" ops]
    by (simp add: new_pool_def session_count_def)
  have full: "\<forall>p' t. \<not> locked p
         \<and> cleanup_expired_sessions cap (p\<lparr>locked := True\<rparr>) (t_sweep env) = (Returns (), p', t)
         \<and> max_sessions p \<le> session_count p' \<longrightarrow>
         create_session cap p env = (Raises (PoolExhausted (max_sessions p)), p'\<lparr>locked := False\<rparr>, t)
         \<and> sessions (p'\<lparr>locked := False\<rparr>) = sessions p"
    by (auto simp: cleanup_under_lock create_session_full session_count_def split: if_splits)
  show ?thesis using inv full by blast
qed

theorem pool_capacity_invariant_witness:
  "session_count (run (new_pool 1 3600) [CreateSession cap_ok env_A, CreateSession cap_ok env_B_soon]) = 1
   \<and> \<not> locked pool_with_A
   \<and> cleanup_expired_sessions cap_ok (pool_with_A\<lparr>locked := True\<rparr>) (t_sweep env_B_soon)
       = (Returns (), pool_with_A\<lparr>locked := True\<rparr>, [])
   \<and> max_sessions pool_with_A = session_count pool_with_A
   \<and> create_session cap_ok pool_with_A env_B_soon = (Raises (PoolExhausted 1), pool_with_A, [])"
proof -
  have count: "session_count pool_with_A = 1" "max_sessions pool_with_A = 1" "\<not> locked pool_with_A"
    by (simp_all add: pool_with_A_eq session_count_def)
  have sweep: "cleanup_expired_sessions cap_ok (pool_with_A\<lparr>locked := True\<rparr>) (t_sweep env_B_soon)
       = (Returns (), pool_with_A\<lparr>locked := True\<rparr>, [])"
    by (simp add: cleanup_under_lock no_expiry_soon)
  have run1: "session_count (run (new_pool 1 3600)
      [CreateSession cap_ok env_A, CreateSession cap_ok env_B_soon]) = 1"
    using count by (simp only: run_A_B)
  show ?thesis
    using pool_capacity_invariant [of 1 3600
        "[CreateSession cap_ok env_A, CreateSession cap_ok env_B_soon]" pool_with_A cap_ok env_B_soon]
      count sweep run1 create_B_soon
    by (simp del: run.simps)
qed

text \<open>
  \<^bold>\<open>C2.\<close> The code does not do what the claim says. In a pool of capacity one whose
  only session \<^verbatim>\<open>A\<close> was last active at time 0, a \<^verbatim>\<open>create_session\<close> at time 4000
  (timeout 3600) finds \<^verbatim>\<open>A\<close> expired and calls \<^verbatim>\<open>close_session\<close> for it while holding
  the pool lock; \<^verbatim>\<open>close_session\<close> waits for that same lock. The call never returns,
  \<^verbatim>\<open>A\<close> stays registered, the lock stays held, and a later \<^verbatim>\<open>close_session\<close> never
  returns either.
\<close>

theorem create_session_deadlocks_on_expired:
  "get_session pool_with_A ''A'' = Some session_A
   \<and> session_count pool_with_A = 1 \<and> max_sessions pool_with_A = 1
   \<and> \<not> locked pool_with_A
   \<and> expired_sessions pool_with_A (t_sweep env_B_late) = [''A'']
   \<and> create_session cap_ok pool_with_A env_B_late = (Blocks, pool_with_A\<lparr>locked := True\<rparr>, [])
   \<and> get_session (after (create_session cap_ok pool_with_A env_B_late)) ''A'' = Some session_A
   \<and> close_session cap_ok (after (create_session cap_ok pool_with_A env_B_late)) ''A''
       = (Blocks, pool_with_A\<lparr>locked := True\<rparr>, [])"
proof -
  have expired: "expired_sessions pool_with_A (t_sweep env_B_late) = [''A'']"
    by (simp add: pool_with_A_eq session_A_eq expired_sessions_def env_B_late_def)
  have free: "\<not> locked pool_with_A"
    by (simp add: pool_with_A_eq)
  have blocks: "create_session cap_ok pool_with_A env_B_late = (Blocks, pool_with_A\<lparr>locked := True\<rparr>, [])"
    using create_session_blocks_on_expired [OF free, of env_B_late cap_ok] expired by simp
  show ?thesis
    using expired blocks
    by (simp add: after_def close_session_locked) (simp add: pool_with_A_eq get_session_def session_count_def)
qed

text \<open>
  \<^bold>\<open>C5.\<close> When \<^verbatim>\<open>close_session\<close> gets the lock and the id is registered, the call
  removes the id, closes the removed session (the release calls of its \<^verbatim>\<open>close\<close> are
  made) and returns \<^verbatim>\<open>True\<close>. A second call for the same id returns \<^verbatim>\<open>False\<close>, raises
  nothing, makes no engine call and leaves the pool as the first call left it.
\<close>

theorem close_session_idempotent:
  assumes free: "\<not> locked p" and reg: "get_session p sid = Some s"
  shows "close_session cap p sid =
           (Returns True, p\<lparr>sessions := AList.delete sid (sessions p)\<rparr>,
            effects (close cap s) @ [LogInfo])
         \<and> get_session (after (close_session cap p sid)) sid = None
         \<and> close_session cap' (after (close_session cap p sid)) sid
             = (Returns False, after (close_session cap p sid), [])"
proof -
  let ?p' = "p\<lparr>sessions := AList.delete sid (sessions p)\<rparr>"
  have first: "close_session cap p sid = (Returns True, ?p', effects (close cap s) @ [LogInfo])"
    using free reg by (simp add: close_session_unlocked get_session_def)
  have gone: "map_of (sessions ?p') sid = None"
    by (simp add: delete_conv')
  have second: "close_session cap' ?p' sid = (Returns False, ?p', [])"
    using free gone by (simp add: close_session_unlocked)
  show ?thesis using first gone second by (simp add: after_def get_session_def)
qed

theorem close_session_idempotent_witness:
  "\<not> locked pool_with_A \<and> get_session pool_with_A ''A'' = Some session_A
   \<and> close_session cap_ok pool_with_A ''A''
       = (Returns True, pool_with_A\<lparr>sessions := []\<rparr>,
          [Call (Release Page), Call (Release Context), Call (Release Browser),
           Call (Release Playwright), LogInfo, LogInfo])
   \<and> close_session cap_ok (after (close_session cap_ok pool_with_A ''A'')) ''A''
       = (Returns False, pool_with_A\<lparr>sessions := []\<rparr>, [])"
proof -
  have free: "\<not> locked pool_with_A" and reg: "get_session pool_with_A ''A'' = Some session_A"
    and del: "AList.delete ''A'' (sessions pool_with_A) = []"
    by (simp_all add: pool_with_A_eq get_session_def)
  have first: "close_session cap_ok pool_with_A ''A''
       = (Returns True, pool_with_A\<lparr>sessions := []\<rparr>,
          [Call (Release Page), Call (Release Context), Call (Release Browser),
           Call (Release Playwright), LogInfo, LogInfo])"
    using free reg by (simp add: close_session_unlocked get_session_def del close_A effects_def)
  have second: "close_session cap_ok (pool_with_A\<lparr>sessions := []\<rparr>) ''A''
       = (Returns False, pool_with_A\<lparr>sessions := []\<rparr>, [])"
    using free by (simp add: close_session_unlocked)
  show ?thesis
    using close_session_idempotent [OF free reg, of cap_ok cap_ok] free reg first second
    by (simp add: after_def)
qed


end
